theory Spec2Isabelle
  imports Complex_Main "HOL-Library.Word"
begin

section \<open>Floating-point values, vectors and errors\<close>

text \<open>
  The program computes with NumPy \<open>float64\<close> values. They are modelled as exact real
  numbers together with one extra value \<open>NaN\<close> that stands for every float that is not
  finite: rounding is not modelled, but the places where NumPy produces \<open>nan\<close> or
  \<open>inf\<close> instead of raising (a division by zero, the square root of a negative number)
  are. Every comparison with \<open>NaN\<close> is false, as in IEEE arithmetic. A division of a
  nonzero number by zero is \<open>inf\<close> in NumPy; the only comparison this program ever
  applies to such a value is the two-sided range test of \<open>_calc_contributing_pixels\<close>,
  which is false for \<open>inf\<close>, \<open>-inf\<close> and \<open>nan\<close> alike, and every other use
  normalises the value to \<open>nan\<close>.
\<close>

datatype npfloat = Fin real | NaN

instantiation npfloat :: "{plus, minus, times, uminus, inverse}"
begin

fun plus_npfloat :: "npfloat \<Rightarrow> npfloat \<Rightarrow> npfloat" where
  "plus_npfloat (Fin x) (Fin y) = Fin (x + y)"
| "plus_npfloat _ _ = NaN"

fun minus_npfloat :: "npfloat \<Rightarrow> npfloat \<Rightarrow> npfloat" where
  "minus_npfloat (Fin x) (Fin y) = Fin (x - y)"
| "minus_npfloat _ _ = NaN"

fun times_npfloat :: "npfloat \<Rightarrow> npfloat \<Rightarrow> npfloat" where
  "times_npfloat (Fin x) (Fin y) = Fin (x * y)"
| "times_npfloat _ _ = NaN"

fun uminus_npfloat :: "npfloat \<Rightarrow> npfloat" where
  "uminus_npfloat (Fin x) = Fin (- x)"
| "uminus_npfloat NaN = NaN"

fun divide_npfloat :: "npfloat \<Rightarrow> npfloat \<Rightarrow> npfloat" where
  "divide_npfloat (Fin x) (Fin y) = (if y = 0 then NaN else Fin (x / y))"
| "divide_npfloat _ _ = NaN"

fun inverse_npfloat :: "npfloat \<Rightarrow> npfloat" where
  "inverse_npfloat (Fin y) = (if y = 0 then NaN else Fin (inverse y))"
| "inverse_npfloat NaN = NaN"

instance ..

end

fun np_sqrt :: "npfloat \<Rightarrow> npfloat" where
  "np_sqrt (Fin x) = (if x < 0 then NaN else Fin (sqrt x))"
| "np_sqrt NaN = NaN"

fun fgt :: "npfloat \<Rightarrow> npfloat \<Rightarrow> bool" where
  "fgt (Fin x) (Fin y) = (x > y)"
| "fgt _ _ = False"

fun fge :: "npfloat \<Rightarrow> npfloat \<Rightarrow> bool" where
  "fge (Fin x) (Fin y) = (x \<ge> y)"
| "fge _ _ = False"

fun flt :: "npfloat \<Rightarrow> npfloat \<Rightarrow> bool" where
  "flt (Fin x) (Fin y) = (x < y)"
| "flt _ _ = False"

fun feq :: "npfloat \<Rightarrow> npfloat \<Rightarrow> bool" where
  "feq (Fin x) (Fin y) = (x = y)"
| "feq _ _ = False"

definition sq :: "npfloat \<Rightarrow> npfloat" where
  "sq x = x * x"

text \<open>Python's \<open>min([x, y])\<close> and \<open>max([x, y])\<close>: the first element stays unless the
  second compares strictly below (above) it.\<close>

definition py_min2 :: "npfloat \<Rightarrow> npfloat \<Rightarrow> npfloat" where
  "py_min2 x y = (if flt y x then y else x)"

definition py_max2 :: "npfloat \<Rightarrow> npfloat \<Rightarrow> npfloat" where
  "py_max2 x y = (if fgt y x then y else x)"

type_synonym vec3 = "npfloat \<times> npfloat \<times> npfloat"

fun vx :: "vec3 \<Rightarrow> npfloat" where "vx (x, y, z) = x"
fun vy :: "vec3 \<Rightarrow> npfloat" where "vy (x, y, z) = y"
fun vz :: "vec3 \<Rightarrow> npfloat" where "vz (x, y, z) = z"

fun vadd :: "vec3 \<Rightarrow> vec3 \<Rightarrow> vec3" where
  "vadd (a, b, c) (x, y, z) = (a + x, b + y, c + z)"

fun vsub :: "vec3 \<Rightarrow> vec3 \<Rightarrow> vec3" where
  "vsub (a, b, c) (x, y, z) = (a - x, b - y, c - z)"

fun vscale :: "npfloat \<Rightarrow> vec3 \<Rightarrow> vec3" where
  "vscale k (x, y, z) = (k * x, k * y, k * z)"

fun vdiv :: "vec3 \<Rightarrow> npfloat \<Rightarrow> vec3" where
  "vdiv (x, y, z) k = (x / k, y / k, z / k)"

fun dot :: "vec3 \<Rightarrow> vec3 \<Rightarrow> npfloat" where
  "dot (a, b, c) (x, y, z) = a * x + b * y + c * z"

fun cross :: "vec3 \<Rightarrow> vec3 \<Rightarrow> vec3" where
  "cross (a, b, c) (x, y, z) = (b * z - c * y, c * x - a * z, a * y - b * x)"

fun linalg_norm :: "vec3 \<Rightarrow> npfloat" where
  "linalg_norm (x, y, z) = np_sqrt (sq x + sq y + sq z)"

definition zeros3 :: vec3 where
  "zeros3 = (Fin 0, Fin 0, Fin 0)"

datatype error = ZeroDivisionError | LinAlgError | TypeError | ValueError
  | IndexError | AssertionError

section \<open>The projector's focal point\<close>

text \<open>A calibration image is a list of four corner points, each a Python list of three
  Python floats; \<open>image[k][2]\<close> reads the z-coordinate of corner \<open>k\<close>.\<close>

type_synonym point = "real \<times> real \<times> real"
type_synonym quad = "point \<times> point \<times> point \<times> point"

fun corner0 :: "quad \<Rightarrow> point" where "corner0 (p0, p1, p2, p3) = p0"
fun corner1 :: "quad \<Rightarrow> point" where "corner1 (p0, p1, p2, p3) = p1"
fun corner2 :: "quad \<Rightarrow> point" where "corner2 (p0, p1, p2, p3) = p2"
fun corner3 :: "quad \<Rightarrow> point" where "corner3 (p0, p1, p2, p3) = p3"

fun px0 :: "point \<Rightarrow> real" where "px0 (x, y, z) = x"
fun px1 :: "point \<Rightarrow> real" where "px1 (x, y, z) = y"
fun px2 :: "point \<Rightarrow> real" where "px2 (x, y, z) = z"

text \<open>Division of Python floats raises \<open>ZeroDivisionError\<close>.\<close>

definition py_div :: "real \<Rightarrow> real \<Rightarrow> error + real" where
  "py_div x y = (if y = 0 then Inl ZeroDivisionError else Inr (x / y))"

text \<open>\<open>numpy.linalg.solve\<close> on a 2x2 system \<open>a x = b\<close>: it raises
  \<open>LinAlgError\<close> (``Singular matrix'') when \<open>a\<close> is singular and returns the unique
  solution otherwise.\<close>

definition linalg_solve :: "(real \<times> real) \<times> (real \<times> real) \<Rightarrow> real \<times> real
    \<Rightarrow> error + (real \<times> real)" where
  "linalg_solve a b =
     (case a of ((a11, a12), (a21, a22)) \<Rightarrow>
      case b of (b1, b2) \<Rightarrow>
        let det = a11 * a22 - a12 * a21 in
        if det = 0 then Inl LinAlgError
        else Inr ((b1 * a22 - a12 * b2) / det, (a11 * b2 - b1 * a21) / det))"

definition calc_projector_focal_point :: "quad \<Rightarrow> quad \<Rightarrow> error + point" where
  "calc_projector_focal_point first_projector_image second_projector_image =
     (let upper_z1 = px2 (corner0 first_projector_image);
          upper_z2 = px2 (corner0 second_projector_image);
          y1 = px1 (corner0 first_projector_image);
          y2 = px1 (corner0 second_projector_image)
      in case py_div (upper_z2 - upper_z1) (y2 - y1) of
           Inl e \<Rightarrow> Inl e
         | Inr upperSlope \<Rightarrow>
             let lower_z1 = px2 (corner2 first_projector_image);
                 lower_z2 = px2 (corner2 second_projector_image)
             in case py_div (lower_z2 - lower_z1) (y2 - y1) of
                  Inl e \<Rightarrow> Inl e
                | Inr lowerSlope \<Rightarrow>
                    let a = ((upperSlope, - 1), (lowerSlope, - 1));
                        b = (upperSlope * y1 - upper_z1, lowerSlope * y1 - lower_z1)
                    in case linalg_solve a b of
                         Inl e \<Rightarrow> Inl e
                       | Inr (y, z) \<Rightarrow> Inr (0, y, z))"

fun ebind :: "error + 'a \<Rightarrow> ('a \<Rightarrow> error + 'b) \<Rightarrow> error + 'b" where
  "ebind (Inl e) f = Inl e"
| "ebind (Inr x) f = f x"

section \<open>Directions of the pixels of a flat display\<close>

text \<open>A two-dimensional array of shape \<open>(h, w)\<close> is a list of \<open>h\<close> rows of \<open>w\<close>
  entries; NumPy's elementwise expressions and the loops over \<open>range(h)\<close>,
  \<open>range(w)\<close> that fill one entry per pixel build it entry by entry.\<close>

definition mk_grid :: "nat \<Rightarrow> nat \<Rightarrow> (nat \<Rightarrow> nat \<Rightarrow> 'a) \<Rightarrow> 'a list list" where
  "mk_grid h w f = map (\<lambda>i. map (\<lambda>j. f i j) [0..<w]) [0..<h]"

text \<open>The entry of \<open>flat_display_directions\<close> at row \<open>i\<close> and column \<open>j\<close>:
  \<open>rows[i, j]\<close> is \<open>float(i)\<close> and \<open>columns[i, j]\<close> is \<open>float(j)\<close>, and the
  denominators \<open>pixel_width - 1\<close> and \<open>pixel_height - 1\<close> are Python integers.\<close>

definition flat_display_pixel ::
  "real \<Rightarrow> real \<Rightarrow> nat \<Rightarrow> nat \<Rightarrow> real \<Rightarrow> real \<Rightarrow> real \<Rightarrow> nat \<Rightarrow> nat \<Rightarrow> vec3" where
  "flat_display_pixel screen_height screen_width pixel_height pixel_width
       distance_to_screen vertical_offset phi i j =
     (let rows = Fin (real i);
          columns = Fin (real j);
          x = Fin screen_width
                * (columns / Fin (of_int (int pixel_width - 1)) - Fin 0.5);
          z = Fin (distance_to_screen * sin phi)
                + (Fin 0.5 - rows / Fin (of_int (int pixel_height - 1)))
                    * Fin screen_height * Fin (cos phi)
                + Fin vertical_offset;
          y = Fin (distance_to_screen * cos phi)
                + (rows / Fin (of_int (int pixel_height - 1)) - Fin 0.5)
                    * Fin screen_height * Fin (sin phi);
          r = np_sqrt (sq x + sq y + sq z)
      in (x / r, y / r, z / r))"

text \<open>With \<open>pixel_height = 0\<close> the arrays \<open>rows\<close> and \<open>columns\<close> have the shapes
  \<open>(0,)\<close> and \<open>(0, pixel_width)\<close>, which NumPy cannot broadcast together unless
  \<open>pixel_width \<le> 1\<close>: the sum \<open>x**2 + y**2\<close> raises \<open>ValueError\<close>.\<close>

definition flat_display_directions ::
  "real \<Rightarrow> real \<Rightarrow> nat \<Rightarrow> nat \<Rightarrow> real \<Rightarrow> real \<Rightarrow> real \<Rightarrow> error + vec3 list list" where
  "flat_display_directions screen_height screen_width pixel_height pixel_width
       distance_to_screen vertical_offset phi =
     (if pixel_height = 0 \<and> 2 \<le> pixel_width then Inl ValueError
      else Inr (mk_grid pixel_height pixel_width
                  (flat_display_pixel screen_height screen_width pixel_height pixel_width
                     distance_to_screen vertical_offset phi)))"

section \<open>The dome projection object\<close>

text \<open>The constructor takes eight parallel lists with one entry per OpenGL screen; a
  screen is modelled as one record of its eight entries, so that the lists have the same
  length by construction. The angles are kept in radians, as \<open>self._pitch\<close>,
  \<open>self._yaw\<close> and \<open>self._roll\<close> are.\<close>

record screen =
  screen_height :: real
  screen_width :: real
  distance_to_screen :: real
  pitch :: real
  yaw :: real
  roll :: real
  image_pixel_height :: nat
  image_pixel_width :: nat

record dome =
  screens :: "screen list"
  projector_pixel_height :: nat
  projector_pixel_width :: nat
  first_projector_image :: quad
  second_projector_image :: quad
  mirror_radius :: real
  dome_center :: point
  dome_radius :: real
  animal_position :: point
  projector_pixel_row :: int
  projector_pixel_col :: int
  vector_to_screen :: "vec3 list"
  row_vector :: "vec3 list"
  col_vector :: "vec3 list"
  camera_view_directions :: "vec3 list list"
  projector_mask :: "nat list list"
  animal_view_directions :: "vec3 list list"
  contributing_pixels :: "(nat \<times> npfloat \<times> npfloat) list list list"

fun fpoint :: "point \<Rightarrow> vec3" where
  "fpoint (x, y, z) = (Fin x, Fin y, Fin z)"

subsection \<open>The four per-pixel stages of \<open>_dome_display_directions\<close>\<close>

text \<open>The discriminant \<open>d_squared\<close> of the mirror quadratic of one pixel, for the focal
  point \<open>p\<close> and the pixel's direction \<open>pd\<close>.\<close>

definition mirror_a :: "vec3 \<Rightarrow> npfloat" where
  "mirror_a pd = sq (vx pd) + sq (vy pd) + sq (vz pd)"

definition mirror_b :: "vec3 \<Rightarrow> vec3 \<Rightarrow> npfloat" where
  "mirror_b p pd = Fin 2 * vx p * vx pd + Fin 2 * vy p * vy pd + Fin 2 * vz p * vz pd"

definition mirror_c :: "vec3 \<Rightarrow> real \<Rightarrow> npfloat" where
  "mirror_c p radius = sq (vx p) + sq (vy p) + sq (vz p) - Fin (radius * radius)"

definition mirror_d_squared :: "vec3 \<Rightarrow> real \<Rightarrow> vec3 \<Rightarrow> npfloat" where
  "mirror_d_squared p radius pd =
     sq (mirror_b p pd) - Fin 4 * mirror_a pd * mirror_c p radius"

text \<open>The scalar \<open>r\<close> of the incident light vector, chosen when \<open>d_squared >= 0\<close>.\<close>

definition mirror_r :: "vec3 \<Rightarrow> real \<Rightarrow> vec3 \<Rightarrow> npfloat" where
  "mirror_r p radius pd =
     (let a = mirror_a pd; b = mirror_b p pd;
          d = np_sqrt (mirror_d_squared p radius pd)
      in py_min2 ((- b + d) / (Fin 2 * a)) ((- b - d) / (Fin 2 * a)))"

text \<open>First loop: the mask and the incident light vector of one pixel.\<close>

definition incident_light_pixel :: "vec3 \<Rightarrow> real \<Rightarrow> vec3 \<Rightarrow> nat \<times> vec3" where
  "incident_light_pixel p radius pd =
     (if fge (mirror_d_squared p radius pd) (Fin 0)
      then (let r = mirror_r p radius pd
            in (1, (r * vx pd, r * vy pd, r * vz pd)))
      else (0, zeros3))"

text \<open>\<open>mirror_radius_vectors\<close> and \<open>mirrorUnitNormals\<close> are computed for every pixel,
  masked or not.\<close>

definition mirror_radius_vector :: "vec3 \<Rightarrow> vec3 \<Rightarrow> vec3" where
  "mirror_radius_vector p incident = vadd p incident"

definition mirrorUnitNormal :: "vec3 \<Rightarrow> real \<Rightarrow> vec3" where
  "mirrorUnitNormal m radius = vdiv m (Fin radius)"

text \<open>Second loop: the direction of the reflected light.\<close>

definition reflectedLightDirection :: "nat \<Rightarrow> vec3 \<Rightarrow> vec3 \<Rightarrow> vec3" where
  "reflectedLightDirection pmask incident u =
     (if pmask = 1
      then (let reflectedLightVector =
                  vadd (vscale (Fin (- 2) * dot incident u) u) incident
            in vdiv reflectedLightVector (linalg_norm reflectedLightVector))
      else zeros3)"

text \<open>Third loop: the dome quadratic along the reflected ray. There is no test of the
  discriminant here: \<open>sqrt\<close> of a negative number is \<open>nan\<close>.\<close>

definition dome_a :: "vec3 \<Rightarrow> npfloat" where
  "dome_a rld = sq (vx rld) + sq (vy rld) + sq (vz rld)"

definition dome_b :: "vec3 \<Rightarrow> point \<Rightarrow> vec3 \<Rightarrow> npfloat" where
  "dome_b m center rld =
     (let rp = vsub m (fpoint center)
      in Fin 2 * vx rp * vx rld + Fin 2 * vy rp * vy rld + Fin 2 * vz rp * vz rld)"

definition dome_c :: "vec3 \<Rightarrow> point \<Rightarrow> real \<Rightarrow> npfloat" where
  "dome_c m center radius =
     (let rp = vsub m (fpoint center)
      in sq (vx rp) + sq (vy rp) + sq (vz rp) - Fin (radius * radius))"

definition dome_d_squared :: "vec3 \<Rightarrow> point \<Rightarrow> real \<Rightarrow> vec3 \<Rightarrow> npfloat" where
  "dome_d_squared m center radius rld =
     sq (dome_b m center rld) - Fin 4 * dome_a rld * dome_c m center radius"

definition reflected_light_vector ::
  "nat \<Rightarrow> vec3 \<Rightarrow> point \<Rightarrow> real \<Rightarrow> vec3 \<Rightarrow> vec3" where
  "reflected_light_vector pmask m center radius rld =
     (if pmask = 1
      then (let a = dome_a rld; b = dome_b m center rld;
                d = np_sqrt (dome_d_squared m center radius rld);
                r = py_max2 ((- b + d) / (Fin 2 * a)) ((- b - d) / (Fin 2 * a))
            in (r * vx rld, r * vy rld, r * vz rld))
      else zeros3)"

text \<open>Fourth loop: the animal's viewing direction.\<close>

definition animal_view_direction :: "nat \<Rightarrow> vec3 \<Rightarrow> vec3 \<Rightarrow> point \<Rightarrow> vec3" where
  "animal_view_direction pmask reflected m position =
     (if pmask = 1
      then (let animal_view_vector = vsub (vadd reflected m) (fpoint position);
                magnitude = linalg_norm animal_view_vector
            in vdiv animal_view_vector magnitude)
      else zeros3)"

text \<open>The four stages for one pixel with projector direction \<open>pd\<close>: its mask and its
  entry of the array that \<open>_dome_display_directions\<close> returns.\<close>

definition dome_display_pixel ::
  "vec3 \<Rightarrow> real \<Rightarrow> point \<Rightarrow> real \<Rightarrow> point \<Rightarrow> vec3 \<Rightarrow> nat \<times> vec3" where
  "dome_display_pixel p m_radius center d_radius position pd =
     (let (pmask, incident) = incident_light_pixel p m_radius pd;
          m = mirror_radius_vector p incident;
          u = mirrorUnitNormal m m_radius;
          rld = reflectedLightDirection pmask incident u;
          reflected = reflected_light_vector pmask m center d_radius rld
      in (pmask, animal_view_direction pmask reflected m position))"

subsection \<open>\<open>_dome_display_directions\<close>\<close>

text \<open>The method returns the array of viewing directions and stores the mask in
  \<open>self._projector_mask\<close>; the updated object is returned with the array.\<close>

definition flip_x :: "vec3 \<Rightarrow> vec3" where
  "flip_x v = (Fin (- 1) * vx v, Fin 1 * vy v, Fin 1 * vz v)"

text \<open>The height and width of the projector's image, its distance from the focal point
  and its vertical offset, read from the second calibration image.\<close>

definition projector_image :: "quad \<Rightarrow> point \<Rightarrow> real \<times> real \<times> real \<times> real" where
  "projector_image second_image projector_focal_point =
     (let top_right_x = px0 (corner1 second_image);
          top_left_x = px0 (corner0 second_image);
          top_left_z = px2 (corner0 second_image);
          bottom_left_z = px2 (corner3 second_image);
          image_height = top_left_z - bottom_left_z;
          image_width = top_right_x - top_left_x;
          image_y = px1 (corner0 second_image);
          projector_y = px1 projector_focal_point;
          distance_to_image = image_y - projector_y;
          projector_z = px2 projector_focal_point;
          vertical_offset = bottom_left_z - projector_z + image_height / 2
      in (image_height, image_width, distance_to_image, vertical_offset))"

definition dome_display_directions :: "dome \<Rightarrow> error + (dome \<times> vec3 list list)" where
  "dome_display_directions self =
     ebind (calc_projector_focal_point (first_projector_image self)
              (second_projector_image self))
       (\<lambda>projector_focal_point.
          case projector_image (second_projector_image self) projector_focal_point of
            (image_height, image_width, distance_to_image, vertical_offset) \<Rightarrow>
              ebind (flat_display_directions image_height image_width
                       (projector_pixel_height self) (projector_pixel_width self)
                       distance_to_image vertical_offset 0)
                (\<lambda>directions.
                   let projector_pixel_directions = map (map flip_x) directions;
                       pixels = map (map (dome_display_pixel (fpoint projector_focal_point)
                                  (mirror_radius self) (dome_center self) (dome_radius self)
                                  (animal_position self))) projector_pixel_directions
                   in Inr (self\<lparr>projector_mask := map (map fst) pixels\<rparr>,
                           map (map snd) pixels)))"

text \<open>The entry \<open>[i, j]\<close> of \<open>self._projector_pixel_directions\<close>.\<close>

definition projector_pixel_direction :: "quad \<Rightarrow> point \<Rightarrow> nat \<Rightarrow> nat \<Rightarrow> nat \<Rightarrow> nat \<Rightarrow> vec3" where
  "projector_pixel_direction second_image projector_focal_point h w i j =
     (case projector_image second_image projector_focal_point of
        (image_height, image_width, distance_to_image, vertical_offset) \<Rightarrow>
          flip_x (flat_display_pixel image_height image_width h w
                    distance_to_image vertical_offset 0 i j))"

subsection \<open>\<open>_calc_contributing_pixels\<close>\<close>

fun emap :: "('a \<Rightarrow> error + 'b) \<Rightarrow> 'a list \<Rightarrow> error + 'b list" where
  "emap f [] = Inr []"
| "emap f (x # xs) = ebind (f x) (\<lambda>y. ebind (emap f xs) (\<lambda>ys. Inr (y # ys)))"

text \<open>The loop that finds the nearest OpenGL screen: one step for screen \<open>i\<close>, on the
  pair of \<open>screen\<close> and \<open>direction_dot_direction_to_screen\<close>.\<close>

definition nearest_screen_step :: "vec3 \<Rightarrow> vec3 list \<Rightarrow> nat \<times> npfloat \<Rightarrow> nat \<Rightarrow> nat \<times> npfloat" where
  "nearest_screen_step direction direction_to_screen st i =
     (let dp = dot direction (direction_to_screen ! i)
      in if fgt dp (snd st) then (i, dp) else st)"

definition nearest_screen :: "vec3 \<Rightarrow> vec3 list \<Rightarrow> nat \<times> npfloat" where
  "nearest_screen direction direction_to_screen =
     foldl (nearest_screen_step direction direction_to_screen) (0, Fin 0)
       [0..<length direction_to_screen]"

text \<open>The list of one projector pixel. \<open>row_center\<close> and \<open>col_center\<close> are Python
  integers (\<open>/\<close> on integers is floor division in Python 2), \<open>row_spacing\<close> and
  \<open>col_spacing\<close> are Python floats.\<close>

definition contributing_pixel ::
  "dome \<Rightarrow> real list \<Rightarrow> real list \<Rightarrow> nat \<Rightarrow> vec3 \<Rightarrow> (nat \<times> npfloat \<times> npfloat) list" where
  "contributing_pixel self row_spacing col_spacing pmask direction =
     (let row_center = map (\<lambda>s. image_pixel_height s div 2) (screens self);
          col_center = map (\<lambda>s. image_pixel_width s div 2) (screens self);
          distance_to_screen = map linalg_norm (vector_to_screen self);
          direction_to_screen =
            map (\<lambda>i. vdiv (vector_to_screen self ! i) (distance_to_screen ! i))
              [0..<length (screens self)]
      in if pmask = 1
         then (let (screen, direction_dot_direction_to_screen) =
                     nearest_screen direction direction_to_screen
               in if fgt direction_dot_direction_to_screen (Fin 0)
                  then (let magnitude = distance_to_screen ! screen
                                          / direction_dot_direction_to_screen;
                            x = magnitude * vx direction;
                            y = magnitude * vy direction;
                            z = magnitude * vz direction;
                            on_screen_vector = vsub (x, y, z) (vector_to_screen self ! screen);
                            r = Fin (real (row_center ! screen))
                                  + dot on_screen_vector (row_vector self ! screen)
                                      / Fin (row_spacing ! screen);
                            c = Fin (real (col_center ! screen))
                                  + dot on_screen_vector (col_vector self ! screen)
                                      / Fin (col_spacing ! screen)
                        in if fge r (Fin 0)
                              \<and> flt r (Fin (real (image_pixel_height (screens self ! screen))))
                              \<and> fge c (Fin 0)
                              \<and> flt c (Fin (real (image_pixel_width (screens self ! screen))))
                           then [(screen, r, c)] else [])
                  else [])
         else [])"

definition calc_contributing_pixels ::
  "dome \<Rightarrow> error + (nat \<times> npfloat \<times> npfloat) list list list" where
  "calc_contributing_pixels self =
     ebind (emap (\<lambda>s. py_div (screen_height s) (real (image_pixel_height s))) (screens self))
       (\<lambda>row_spacing.
          ebind (emap (\<lambda>s. py_div (screen_width s) (real (image_pixel_width s)))
                   (screens self))
            (\<lambda>col_spacing.
               Inr (mk_grid (projector_pixel_height self) (projector_pixel_width self)
                      (\<lambda>row col. contributing_pixel self row_spacing col_spacing
                          (projector_mask self ! row ! col)
                          (animal_view_directions self ! row ! col)))))"

subsection \<open>The constructor\<close>

definition screen_vectors :: "screen \<Rightarrow> vec3 \<times> vec3 \<times> vec3" where
  "screen_vectors s =
     (let x = distance_to_screen s * sin (yaw s) * cos (pitch s);
          y = distance_to_screen s * cos (yaw s) * cos (pitch s);
          z = distance_to_screen s * sin (pitch s);
          v = (Fin x, Fin y, Fin z);
          col_vector0 = cross v (Fin (sin (roll s) * cos (yaw s)),
                                 Fin (sin (roll s) * sin (yaw s)),
                                 Fin (cos (roll s)));
          col_vector1 = vdiv col_vector0 (linalg_norm col_vector0);
          row_vector0 = cross v col_vector1;
          row_vector1 = vdiv row_vector0 (linalg_norm row_vector0)
      in (v, row_vector1, col_vector1))"

definition to_radians :: "screen \<Rightarrow> screen" where
  "to_radians s = s\<lparr>pitch := pitch s * pi / 180, yaw := yaw s * pi / 180,
                    roll := roll s * pi / 180\<rparr>"

text \<open>\<open>__init__\<close>, with the angles of the argument screens in degrees. The camera view
  directions are those of the first screen; its pitch is passed as the sixth positional
  argument of \<open>flat_display_directions\<close>, which is \<open>vertical_offset\<close>.\<close>

definition init :: "screen list \<Rightarrow> nat \<Rightarrow> nat \<Rightarrow> quad \<Rightarrow> quad \<Rightarrow> real \<Rightarrow> point \<Rightarrow> real \<Rightarrow> point
    \<Rightarrow> error + dome" where
  "init scrs pp_height pp_width first_image second_image m_radius d_center d_radius
       a_position =
     (let self0 = \<lparr>screens = map to_radians scrs,
                    projector_pixel_height = pp_height,
                    projector_pixel_width = pp_width,
                    first_projector_image = first_image,
                    second_projector_image = second_image,
                    mirror_radius = m_radius,
                    dome_center = d_center,
                    dome_radius = d_radius,
                    animal_position = a_position,
                    projector_pixel_row = int pp_height - 1,
                    projector_pixel_col = int pp_width div 2,
                    vector_to_screen = map (\<lambda>s. fst (screen_vectors (to_radians s))) scrs,
                    row_vector = map (\<lambda>s. fst (snd (screen_vectors (to_radians s)))) scrs,
                    col_vector = map (\<lambda>s. snd (snd (screen_vectors (to_radians s)))) scrs,
                    camera_view_directions = [],
                    projector_mask = [],
                    animal_view_directions = [],
                    contributing_pixels = []\<rparr>
      in case screens self0 of
           [] \<Rightarrow> Inl IndexError
         | s # _ \<Rightarrow>
             ebind (flat_display_directions (screen_height s) (screen_width s)
                      (image_pixel_height s) (image_pixel_width s)
                      (distance_to_screen s) (pitch s) 0)
               (\<lambda>cvd.
                  let self1 = self0\<lparr>camera_view_directions := cvd\<rparr>
                  in ebind (dome_display_directions self1)
                       (\<lambda>(self2, avd).
                          let self3 = self2\<lparr>animal_view_directions := avd\<rparr>
                          in ebind (calc_contributing_pixels self3)
                               (\<lambda>cp. Inr (self3\<lparr>contributing_pixels := cp\<rparr>)))))"

section \<open>The search for the closest projector pixel\<close>

text \<open>Indexing one axis of length \<open>n\<close> of a NumPy array with a Python integer: a
  negative index counts from the end, an index outside \<open>-n .. n-1\<close> raises
  \<open>IndexError\<close>.\<close>

definition np_index :: "nat \<Rightarrow> int \<Rightarrow> error + nat" where
  "np_index n i =
     (if 0 \<le> i \<and> i < int n then Inr (nat i)
      else if - int n \<le> i \<and> i < 0 then Inr (nat (int n + i))
      else Inl IndexError)"

definition np_get2 :: "'a list list \<Rightarrow> int \<Rightarrow> int \<Rightarrow> error + 'a" where
  "np_get2 a r c =
     ebind (np_index (length a) r)
       (\<lambda>i. ebind (np_index (length (a ! i)) c) (\<lambda>j. Inr (a ! i ! j)))"

text \<open>Python's \<open>max\<close> of a list keeps its first element until a later one compares
  strictly greater, and raises \<open>ValueError\<close> on the empty list; \<open>list.index\<close> is the
  position of the first element equal to its argument.\<close>

fun py_max :: "npfloat list \<Rightarrow> error + npfloat" where
  "py_max [] = Inl ValueError"
| "py_max (x # xs) = Inr (foldl py_max2 x xs)"

fun py_index :: "'a list \<Rightarrow> 'a \<Rightarrow> nat" where
  "py_index [] v = 0"
| "py_index (x # xs) v = (if x = v then 0 else Suc (py_index xs v))"

definition offsets :: "(int \<times> int) list" where
  "offsets = [(- 1, - 1), (- 1, 0), (- 1, 1), (0, - 1), (0, 1), (1, - 1), (1, 0), (1, 1)]"

text \<open>The neighbours are inside the projector's resolution, which is the shape of
  \<open>self._animal_view_directions\<close> in every object the constructor returns.\<close>

definition calc_neighbor_dot_products ::
  "dome \<Rightarrow> int \<Rightarrow> int \<Rightarrow> vec3 \<Rightarrow> npfloat list \<times> (int \<times> int) list" where
  "calc_neighbor_dot_products self row col camera_direction =
     (let neighbors =
            map (\<lambda>(dr, dc). (row + dr, col + dc))
              (filter (\<lambda>(dr, dc). row + dr \<ge> 0 \<and> row + dr < int (projector_pixel_height self)
                         \<and> col + dc \<ge> 0 \<and> col + dc < int (projector_pixel_width self))
                 offsets);
          neighbor_dps =
            map (\<lambda>(r, c). dot camera_direction
                             (animal_view_directions self ! nat r ! nat c)) neighbors
      in (neighbor_dps, neighbors))"

text \<open>The hill-climbing loop, from the current dot product \<open>dp\<close> and pixel
  \<open>(r, c)\<close>; the neighbours of the current pixel are computed at the head of each
  round.\<close>

function climb :: "dome \<Rightarrow> vec3 \<Rightarrow> npfloat \<Rightarrow> int \<Rightarrow> int \<Rightarrow> error + (int \<times> int)" where
  "climb self camera_direction dp r c =
     (let neighbor_dps = fst (calc_neighbor_dot_products self r c camera_direction);
          neighbors = snd (calc_neighbor_dot_products self r c camera_direction)
      in case py_max neighbor_dps of
           Inl e \<Rightarrow> Inl e
         | Inr m \<Rightarrow>
             if fgt m dp
             then climb self camera_direction m
                    (fst (neighbors ! py_index neighbor_dps m))
                    (snd (neighbors ! py_index neighbor_dps m))
             else Inr (r, c))"
  by pat_completeness auto

text \<open>\<open>_find_closest_projector_pixel\<close>. \<open>randint\<close> is imported from Python's
  \<open>random\<close> module, whose \<open>randint(a, b)\<close> takes two arguments: the call
  \<open>randint(self._projector_pixel_height)\<close>, the first statement of the restart loop,
  raises \<open>TypeError\<close>. The method returns the pixel and saves it in the object.\<close>

definition find_closest_projector_pixel ::
  "dome \<Rightarrow> int \<Rightarrow> int \<Rightarrow> error + (dome \<times> int \<times> int)" where
  "find_closest_projector_pixel self row col =
     ebind (np_get2 (camera_view_directions self) row col)
       (\<lambda>camera_direction.
          let r = projector_pixel_row self;
              c = projector_pixel_col self
          in ebind (np_get2 (projector_mask self) r c)
               (\<lambda>m. if m = 0 then Inl TypeError
                    else ebind (np_get2 (animal_view_directions self) r c)
                           (\<lambda>animalDirection.
                              let dp = dot camera_direction animalDirection
                              in ebind (climb self camera_direction dp r c)
                                   (\<lambda>(r', c').
                                      Inr (self\<lparr>projector_pixel_row := r',
                                                 projector_pixel_col := c'\<rparr>, r', c')))))"

section \<open>Warping an image\<close>

text \<open>An RGB image has a size \<open>(width, height)\<close> and one triple of bytes per pixel;
  \<open>array(image)\<close> has the shape \<open>(height, width, 3)\<close>.\<close>

type_synonym rgb = "8 word \<times> 8 word \<times> 8 word"

record image =
  image_size :: "nat \<times> nat"
  image_array :: "nat \<Rightarrow> nat \<Rightarrow> rgb"

text \<open>The assertions on the sizes of the images, in the order of \<open>enumerate(images)\<close>;
  an image beyond the last screen fails on \<open>self._image_pixel_width[i]\<close>.\<close>

fun check_images :: "screen list \<Rightarrow> image list \<Rightarrow> error + unit" where
  "check_images scrs [] = Inr ()"
| "check_images [] (img # imgs) = Inl IndexError"
| "check_images (s # scrs) (img # imgs) =
     (if image_size img = (image_pixel_width s, image_pixel_height s)
      then check_images scrs imgs else Inl AssertionError)"

text \<open>The row and column stored in a contributing pixel are floats. Indexing an array
  with a float truncates it to an integer in the NumPy releases for Python 2.7 that the
  program was written for.\<close>

definition float_index :: "nat \<Rightarrow> npfloat \<Rightarrow> error + nat" where
  "float_index n f =
     (case f of
        NaN \<Rightarrow> Inl ValueError
      | Fin x \<Rightarrow> np_index n (if x \<ge> 0 then \<lfloor>x\<rfloor> else \<lceil>x\<rceil>))"

definition read_pixel :: "image list \<Rightarrow> nat \<times> npfloat \<times> npfloat \<Rightarrow> error + rgb" where
  "read_pixel pixels pixel =
     (case pixel of (s, r, c) \<Rightarrow>
        if s < length pixels
        then ebind (float_index (snd (image_size (pixels ! s))) r)
               (\<lambda>i. ebind (float_index (fst (image_size (pixels ! s))) c)
                  (\<lambda>j. Inr (image_array (pixels ! s) i j)))
        else Inl IndexError)"

type_synonym rvec = "real \<times> real \<times> real"

fun add_rgb :: "rvec \<Rightarrow> rgb \<Rightarrow> rvec" where
  "add_rgb (x, y, z) (r, g, b) = (x + real (unat r), y + real (unat g), z + real (unat b))"

fun accumulate :: "image list \<Rightarrow> (nat \<times> npfloat \<times> npfloat) list \<Rightarrow> rvec \<Rightarrow> error + rvec" where
  "accumulate pixels [] pixel_value = Inr pixel_value"
| "accumulate pixels (pixel # rest) pixel_value =
     ebind (read_pixel pixels pixel)
       (\<lambda>v. accumulate pixels rest (add_rgb pixel_value v))"

text \<open>The conversion of a float to \<open>uint8\<close> drops the fraction.\<close>

definition to_uint8 :: "real \<Rightarrow> 8 word" where
  "to_uint8 x = word_of_int \<lfloor>x\<rfloor>"

definition warp_pixel :: "image list \<Rightarrow> (nat \<times> npfloat \<times> npfloat) list \<Rightarrow> error + rgb" where
  "warp_pixel pixels cps =
     ebind (accumulate pixels cps (0, 0, 0))
       (\<lambda>(x, y, z).
          let n = length cps;
              (x', y', z') = (if n > 0 then (x / real n, y / real n, z / real n)
                              else (x, y, z))
          in Inr (to_uint8 x', to_uint8 y', to_uint8 z'))"

definition warp_image_for_dome :: "dome \<Rightarrow> image list \<Rightarrow> error + rgb list list" where
  "warp_image_for_dome self images =
     ebind (check_images (screens self) images)
       (\<lambda>_. emap (\<lambda>row. emap (\<lambda>col. warp_pixel images (contributing_pixels self ! row ! col))
                           [0..<projector_pixel_width self])
               [0..<projector_pixel_height self])"

section \<open>Definitions used in the statements\<close>

text \<open>The measure of the hill-climbing loop: every round moves to a pixel of the grid
  whose dot product is strictly greater, so the set of grid pixels with a dot product
  strictly greater than the current one shrinks.\<close>

definition better :: "dome \<Rightarrow> vec3 \<Rightarrow> npfloat \<Rightarrow> (nat \<times> nat) set" where
  "better self cam dp = {(i, j). i < projector_pixel_height self \<and> j < projector_pixel_width self
      \<and> fgt (dot cam (animal_view_directions self ! i ! j)) dp}"

text \<open>The mask and the viewing direction that \<open>_dome_display_directions\<close> computes for
  the projector pixel in row \<open>i\<close> and column \<open>j\<close>.\<close>

definition dome_display_entry :: "quad \<Rightarrow> point \<Rightarrow> nat \<Rightarrow> nat \<Rightarrow> real \<Rightarrow> point \<Rightarrow> real \<Rightarrow> point \<Rightarrow> nat \<Rightarrow> nat \<Rightarrow> nat \<times> vec3" where
  "dome_display_entry second_image fp h w m_radius center d_radius position i j =
     dome_display_pixel (fpoint fp) m_radius center d_radius position
       (projector_pixel_direction second_image fp h w i j)"

subsection \<open>Example objects\<close>

text \<open>A small configuration on which the theorems below are instantiated: one OpenGL
  screen of 2x2 pixels straight ahead, a projector of 3x3 pixels, and calibration images
  that put the focal point at \<open>(0, 3, 0)\<close>. The centre pixel of the projector points
  along \<open>(0, -1, 0)\<close> and the top left pixel along \<open>(1/3, -2/3, 2/3)\<close>.\<close>

definition example_screens :: "screen list" where
  "example_screens = [\<lparr>screen_height = 1, screen_width = 1, distance_to_screen = 1,
      pitch = 0, yaw = 0, roll = 0, image_pixel_height = 2, image_pixel_width = 2\<rparr>]"

definition example_first_image :: quad where
  "example_first_image = ((- 1 / 2, 2, 1), (1 / 2, 2, 1), (1 / 2, 2, - 1), (- 1 / 2, 2, - 1))"

definition example_second_image :: quad where
  "example_second_image = ((- 1, 1, 2), (1, 1, 2), (1, 1, - 2), (- 1, 1, - 2))"

definition example_image :: image where
  "example_image = \<lparr>image_size = (2, 2), image_array = (\<lambda>r c. (7, 8, 9))\<rparr>"


section \<open>Termination of the hill climb\<close>

lemma foldl_py_max2_mem: "foldl py_max2 x xs \<in> set (x # xs)"
  by (induction xs arbitrary: x) (auto simp: py_max2_def)

lemma py_max_mem: "py_max xs = Inr m \<Longrightarrow> m \<in> set xs"
  using foldl_py_max2_mem by (cases xs) auto

lemma py_index_nth: "v \<in> set xs \<Longrightarrow> xs ! py_index xs v = v \<and> py_index xs v < length xs"
  by (induction xs) auto

lemma neighbors_length:
  "length (fst (calc_neighbor_dot_products self r c cam)) = length (snd (calc_neighbor_dot_products self r c cam))"
  by (simp add: calc_neighbor_dot_products_def Let_def)

lemma neighbors_in_grid:
  "(r', c') \<in> set (snd (calc_neighbor_dot_products self r c cam)) \<Longrightarrow>
     0 \<le> r' \<and> r' < int (projector_pixel_height self) \<and> 0 \<le> c' \<and> c' < int (projector_pixel_width self)"
  by (auto simp: calc_neighbor_dot_products_def Let_def)

lemma neighbor_dps_nth:
  "k < length (snd (calc_neighbor_dot_products self r c cam)) \<Longrightarrow>
   fst (calc_neighbor_dot_products self r c cam) ! k =
     dot cam (animal_view_directions self ! nat (fst (snd (calc_neighbor_dot_products self r c cam) ! k))
                 ! nat (snd (snd (calc_neighbor_dot_products self r c cam) ! k)))"
  by (simp add: calc_neighbor_dot_products_def Let_def case_prod_beta)

lemma finite_better: "finite (better self cam dp)"
proof -
  have "better self cam dp \<subseteq> {..<projector_pixel_height self} \<times> {..<projector_pixel_width self}"
    by (auto simp: better_def)
  then show ?thesis by (rule finite_subset) simp
qed

lemma fgt_trans: "fgt x y \<Longrightarrow> fgt y z \<Longrightarrow> fgt x z"
  by (cases x; cases y; cases z) auto

lemma fgt_irrefl: "\<not> fgt x x"
  by (cases x) auto

lemma climb_step_decreases:
  assumes m: "py_max (fst (calc_neighbor_dot_products self r c cam)) = Inr m"
    and gt: "fgt m dp"
  shows "card (better self cam m) < card (better self cam dp)"
proof -
  let ?dps = "fst (calc_neighbor_dot_products self r c cam)"
  let ?nbs = "snd (calc_neighbor_dot_products self r c cam)"
  let ?k = "py_index ?dps m"
  from m have mem: "m \<in> set ?dps" by (rule py_max_mem)
  then have k: "?dps ! ?k = m" "?k < length ?dps" using py_index_nth [of m ?dps] by simp_all
  then have kn: "?k < length ?nbs" by (simp add: neighbors_length)
  obtain r' c' where rc: "?nbs ! ?k = (r', c')" by (cases "?nbs ! ?k")
  with kn have "(r', c') \<in> set ?nbs" by (metis nth_mem)
  then have b: "0 \<le> r'" "r' < int (projector_pixel_height self)" "0 \<le> c'"
    "c' < int (projector_pixel_width self)" using neighbors_in_grid by blast+
  have dm: "dot cam (animal_view_directions self ! nat r' ! nat c') = m"
    using neighbor_dps_nth [OF kn] k rc by simp
  have in_old: "(nat r', nat c') \<in> better self cam dp"
  proof -
    from b have "nat r' < projector_pixel_height self" "nat c' < projector_pixel_width self"
      by linarith+
    with dm gt show ?thesis by (simp add: better_def)
  qed
  have not_new: "(nat r', nat c') \<notin> better self cam m"
    using dm fgt_irrefl by (simp add: better_def)
  have sub: "better self cam m \<subseteq> better self cam dp"
    using gt fgt_trans by (auto simp: better_def)
  from sub in_old not_new have "better self cam m \<subset> better self cam dp" by blast
  then show ?thesis by (rule psubset_card_mono [OF finite_better])
qed

termination climb
proof (relation "measure (\<lambda>(self, cam, dp, r, c). card (better self cam dp))")
  show "wf (measure (\<lambda>(self, cam, dp, r, c). card (better self cam dp)))" by simp
next
  fix self cam dp r c nd nb x2
  assume "nd = fst (calc_neighbor_dot_products self r c cam)"
    and "py_max nd = Inr x2" and "fgt x2 dp"
  then show "((self, cam, x2, fst (nb ! py_index nd x2), snd (nb ! py_index nd x2)), self, cam, dp, r, c)
       \<in> measure (\<lambda>(self, cam, dp, r, c). card (better self cam dp))"
    using climb_step_decreases by simp
qed

declare climb.simps [simp del]

section \<open>Properties of the mirror quadratic\<close>

lemma smaller_root_is_root:
  fixes a b c :: real
  assumes a: "a \<noteq> 0" and D: "0 \<le> b * b - 4 * a * c"
  shows "a * (((- b - sqrt (b * b - 4 * a * c)) / (2 * a))
                * ((- b - sqrt (b * b - 4 * a * c)) / (2 * a)))
           + b * ((- b - sqrt (b * b - 4 * a * c)) / (2 * a)) + c = 0"
proof -
  let ?s = "sqrt (b * b - 4 * a * c)"
  have s2: "?s * ?s = b * b - 4 * a * c" using D by simp
  have "a * (((- b - ?s) / (2 * a)) * ((- b - ?s) / (2 * a))) + b * ((- b - ?s) / (2 * a)) + c
       = ((b * b + 2 * b * ?s + ?s * ?s) - 2 * b * b - 2 * b * ?s + 4 * a * c) / (4 * a)"
    using a by (simp add: field_simps)
  also have "\<dots> = 0" unfolding s2 by simp
  finally show ?thesis .
qed

lemma smaller_root_least:
  fixes a b c x :: real
  assumes a: "0 < a" and D: "0 \<le> b * b - 4 * a * c"
    and x: "a * (x * x) + b * x + c = 0"
  shows "(- b - sqrt (b * b - 4 * a * c)) / (2 * a) \<le> x"
proof -
  let ?s = "sqrt (b * b - 4 * a * c)"
  have "(2 * a * x + b) * (2 * a * x + b) = b * b - 4 * a * c"
  proof -
    have "(2 * a * x + b) * (2 * a * x + b)
            = 4 * a * (a * (x * x) + b * x + c) + b * b - 4 * a * c"
      by (simp add: algebra_simps)
    then show ?thesis using x by simp
  qed
  then have "?s = \<bar>2 * a * x + b\<bar>"
    by (metis real_sqrt_abs2)
  then have "- ?s \<le> 2 * a * x + b" by linarith
  then have "- b - ?s \<le> x * (2 * a)" by (simp add: algebra_simps)
  then show ?thesis using a by (simp add: pos_divide_le_eq)
qed

lemma fge_FinD: "fge x (Fin y) \<Longrightarrow> \<exists>r. x = Fin r \<and> y \<le> r"
  by (cases x) auto

lemma flt_FinD: "flt x (Fin y) \<Longrightarrow> \<exists>r. x = Fin r \<and> r < y"
  by (cases x) auto

lemma mirror_r_value:
  assumes d: "mirror_d_squared p radius pd = Fin D" and D: "0 \<le> D"
    and a: "mirror_a pd = Fin a" and a0: "0 < a"
    and b: "mirror_b p pd = Fin b"
  shows "mirror_r p radius pd = Fin ((- b - sqrt D) / (2 * a))"
  using assms by (auto simp: mirror_r_def Let_def py_min2_def divide_simps)

lemma sqrt_100: "sqrt 100 = 10"
  using real_sqrt_abs [of 10] by simp

text \<open>
  C1 (as amended). For a pixel whose mirror quadratic has a nonnegative discriminant
  and whose direction is not the zero vector, the scalar \<open>r\<close> chosen for the incident
  light vector is a root of the quadratic \<open>a r\<^sup>2 + b r + c\<close> and is less than or equal
  to every real root of it: \<open>r\<close> is the smaller of the two roots, whatever their signs.
  It is therefore the nearest intersection forward along the ray exactly when both roots
  are positive.
\<close>

theorem mirror_r_smaller_root:
  assumes hit: "fge (mirror_d_squared p radius pd) (Fin 0)"
    and a0: "mirror_a pd \<noteq> Fin 0"
  shows "\<exists>r. mirror_r p radius pd = Fin r
           \<and> mirror_a pd * sq (Fin r) + mirror_b p pd * Fin r + mirror_c p radius = Fin 0
           \<and> (\<forall>x. mirror_a pd * sq (Fin x) + mirror_b p pd * Fin x + mirror_c p radius = Fin 0
                  \<longrightarrow> r \<le> x)"
proof -
  from hit obtain D where D: "mirror_d_squared p radius pd = Fin D" "0 \<le> D"
    using fge_FinD by blast
  from D(1) obtain a b c where abc: "mirror_a pd = Fin a" "mirror_b p pd = Fin b"
      "mirror_c p radius = Fin c" and Deq: "D = b * b - 4 * a * c"
    unfolding mirror_d_squared_def sq_def
    by (cases "mirror_a pd"; cases "mirror_b p pd"; cases "mirror_c p radius") auto
  from a0 abc have a_ne: "a \<noteq> 0" by simp
  have a_nonneg: "0 \<le> a"
    using abc(1) unfolding mirror_a_def sq_def
    by (cases "vx pd"; cases "vy pd"; cases "vz pd") auto
  with a_ne have a_pos: "0 < a" by simp
  let ?r = "(- b - sqrt D) / (2 * a)"
  have r: "mirror_r p radius pd = Fin ?r"
    using mirror_r_value [OF D(1) D(2) abc(1) a_pos abc(2)] .
  have root: "a * (?r * ?r) + b * ?r + c = 0"
    using smaller_root_is_root [OF a_ne, of b c] D(2) unfolding Deq by simp
  have least: "\<forall>x. a * (x * x) + b * x + c = 0 \<longrightarrow> ?r \<le> x"
    using smaller_root_least [OF a_pos, of b c] D(2) unfolding Deq by blast
  show ?thesis
    using r root least by (auto simp: abc sq_def)
qed

theorem mirror_r_smaller_root_witness:
  "fge (mirror_d_squared (fpoint (0, 3, 0)) 1 (Fin 0, Fin (- 1), Fin 0)) (Fin 0)
   \<and> mirror_a (Fin 0, Fin (- 1), Fin 0) \<noteq> Fin 0
   \<and> (\<exists>r. mirror_r (fpoint (0, 3, 0)) 1 (Fin 0, Fin (- 1), Fin 0) = Fin r
          \<and> mirror_a (Fin 0, Fin (- 1), Fin 0) * sq (Fin r)
              + mirror_b (fpoint (0, 3, 0)) (Fin 0, Fin (- 1), Fin 0) * Fin r
              + mirror_c (fpoint (0, 3, 0)) 1 = Fin 0
          \<and> (\<forall>x. mirror_a (Fin 0, Fin (- 1), Fin 0) * sq (Fin x)
                    + mirror_b (fpoint (0, 3, 0)) (Fin 0, Fin (- 1), Fin 0) * Fin x
                    + mirror_c (fpoint (0, 3, 0)) 1 = Fin 0
                 \<longrightarrow> r \<le> x))"
proof -
  have h1: "fge (mirror_d_squared (fpoint (0, 3, 0)) 1 (Fin 0, Fin (- 1), Fin 0)) (Fin 0)"
    by (simp add: mirror_d_squared_def mirror_a_def mirror_b_def mirror_c_def sq_def)
  have h2: "mirror_a (Fin 0, Fin (- 1), Fin 0) \<noteq> Fin 0"
    by (simp add: mirror_a_def sq_def)
  from mirror_r_smaller_root [OF h1 h2] h1 h2 show ?thesis by blast
qed

text \<open>
  The claim as written fails when the focal point lies inside the mirror's sphere. The
  calibration images below put the focal point at \<open>(0, 3, 0)\<close>, and the centre pixel of a
  3x3 projector points along \<open>(0, -1, 0)\<close>; with a mirror of radius 5 the roots are
  \<open>-2\<close> and \<open>8\<close>, the pixel is marked as hitting the mirror, and the root chosen is
  \<open>-2\<close>: it is not positive, and the point it gives lies behind the focal point.
\<close>

theorem mirror_r_positive_counterexample:
  "calc_projector_focal_point
       ((- 1, 2, 1), (1, 2, 1), (1, 2, - 1), (- 1, 2, - 1))
       ((- 2, 1, 2), (2, 1, 2), (2, 1, - 2), (- 2, 1, - 2)) = Inr (0, 3, 0)
   \<and> flip_x (flat_display_pixel 4 4 3 3 (- 2) 0 0 1 1) = (Fin 0, Fin (- 1), Fin 0)
   \<and> fge (mirror_d_squared (fpoint (0, 3, 0)) 5 (Fin 0, Fin (- 1), Fin 0)) (Fin 0)
   \<and> mirror_r (fpoint (0, 3, 0)) 5 (Fin 0, Fin (- 1), Fin 0) = Fin (- 2)
   \<and> \<not> fgt (mirror_r (fpoint (0, 3, 0)) 5 (Fin 0, Fin (- 1), Fin 0)) (Fin 0)
   \<and> incident_light_pixel (fpoint (0, 3, 0)) 5 (Fin 0, Fin (- 1), Fin 0)
        = (1, (Fin 0, Fin 2, Fin 0))"
proof -
  have focal: "calc_projector_focal_point
       ((- 1, 2, 1), (1, 2, 1), (1, 2, - 1), (- 1, 2, - 1))
       ((- 2, 1, 2), (2, 1, 2), (2, 1, - 2), (- 2, 1, - 2)) = Inr (0, 3, 0)"
    by (simp add: calc_projector_focal_point_def py_div_def linalg_solve_def Let_def)
  have centre: "flip_x (flat_display_pixel 4 4 3 3 (- 2) 0 0 1 1) = (Fin 0, Fin (- 1), Fin 0)"
    by (simp add: flat_display_pixel_def flip_x_def Let_def sq_def)
  have d: "mirror_d_squared (fpoint (0, 3, 0)) 5 (Fin 0, Fin (- 1), Fin 0) = Fin 100"
    by (simp add: mirror_d_squared_def mirror_a_def mirror_b_def mirror_c_def sq_def)
  have r: "mirror_r (fpoint (0, 3, 0)) 5 (Fin 0, Fin (- 1), Fin 0) = Fin (- 2)"
    using d by (simp add: mirror_r_def mirror_a_def mirror_b_def sq_def Let_def py_min2_def sqrt_100)
  have i: "incident_light_pixel (fpoint (0, 3, 0)) 5 (Fin 0, Fin (- 1), Fin 0)
        = (1, (Fin 0, Fin 2, Fin 0))"
    using d r by (simp add: incident_light_pixel_def)
  show ?thesis using focal centre d r i by simp
qed

section \<open>The arrays of a constructed object\<close>

lemma length_mk_grid: "length (mk_grid h w f) = h"
  by (simp add: mk_grid_def)

lemma length_mk_grid_row: "i < h \<Longrightarrow> length (mk_grid h w f ! i) = w"
  by (simp add: mk_grid_def)

lemma mk_grid_nth: "i < h \<Longrightarrow> j < w \<Longrightarrow> mk_grid h w f ! i ! j = f i j"
  by (simp add: mk_grid_def)

lemma map_map_mk_grid: "map (map g) (mk_grid h w f) = mk_grid h w (\<lambda>i j. g (f i j))"
  by (simp add: mk_grid_def)

lemma ebind_eq_Inr: "ebind m f = Inr y \<longleftrightarrow> (\<exists>x. m = Inr x \<and> f x = Inr y)"
  by (cases m) auto

lemma flat_display_directions_Inr:
  "flat_display_directions sh sw h w d vo phi = Inr g \<Longrightarrow>
     g = mk_grid h w (flat_display_pixel sh sw h w d vo phi)"
  by (auto simp: flat_display_directions_def split: if_splits)

lemma dome_display_directions_Inr:
  assumes "dome_display_directions self = Inr (self', avd)"
  shows "\<exists>fp. calc_projector_focal_point (first_projector_image self) (second_projector_image self) = Inr fp
     \<and> self' = self\<lparr>projector_mask := mk_grid (projector_pixel_height self) (projector_pixel_width self)
          (\<lambda>i j. fst (dome_display_pixel (fpoint fp) (mirror_radius self) (dome_center self)
              (dome_radius self) (animal_position self)
              (projector_pixel_direction (second_projector_image self) fp
                 (projector_pixel_height self) (projector_pixel_width self) i j)))\<rparr>
     \<and> avd = mk_grid (projector_pixel_height self) (projector_pixel_width self)
          (\<lambda>i j. snd (dome_display_pixel (fpoint fp) (mirror_radius self) (dome_center self)
              (dome_radius self) (animal_position self)
              (projector_pixel_direction (second_projector_image self) fp
                 (projector_pixel_height self) (projector_pixel_width self) i j)))"
proof -
  from assms obtain fp where fp: "calc_projector_focal_point (first_projector_image self)
      (second_projector_image self) = Inr fp"
    unfolding dome_display_directions_def by (auto simp: ebind_eq_Inr)
  obtain ih iw d vo where pi: "projector_image (second_projector_image self) fp = (ih, iw, d, vo)"
    by (cases "projector_image (second_projector_image self) fp") auto
  from assms fp pi obtain g where g: "flat_display_directions ih iw (projector_pixel_height self)
      (projector_pixel_width self) d vo 0 = Inr g"
    unfolding dome_display_directions_def by (auto simp: ebind_eq_Inr)
  note gg = flat_display_directions_Inr [OF g]
  from assms show ?thesis
    unfolding dome_display_directions_def
    by (simp add: fp pi g Let_def gg map_map_mk_grid projector_pixel_direction_def)
qed

lemma contributing_pixel_cong:
  assumes "screens a = screens b" "vector_to_screen a = vector_to_screen b"
    "row_vector a = row_vector b" "col_vector a = col_vector b"
  shows "contributing_pixel a rs cs m d = contributing_pixel b rs cs m d"
  unfolding contributing_pixel_def assms by (rule refl)

lemma calc_contributing_pixels_Inr:
  assumes "calc_contributing_pixels self = Inr cp"
  shows "\<exists>rs cs.
           emap (\<lambda>s. py_div (screen_height s) (real (image_pixel_height s))) (screens self) = Inr rs
         \<and> emap (\<lambda>s. py_div (screen_width s) (real (image_pixel_width s))) (screens self) = Inr cs
         \<and> cp = mk_grid (projector_pixel_height self) (projector_pixel_width self)
                  (\<lambda>row col. contributing_pixel self rs cs (projector_mask self ! row ! col)
                          (animal_view_directions self ! row ! col))"
  using assms unfolding calc_contributing_pixels_def by (auto simp: ebind_eq_Inr)

lemma init_Inr:
  assumes "init scrs h w first_image second_image m_radius center d_radius position = Inr self"
  shows "\<exists>fp s rest. calc_projector_focal_point first_image second_image = Inr fp
    \<and> map to_radians scrs = s # rest
    \<and> screens self = map to_radians scrs
    \<and> projector_pixel_height self = h \<and> projector_pixel_width self = w
    \<and> projector_pixel_row self = int h - 1 \<and> projector_pixel_col self = int w div 2
    \<and> camera_view_directions self
         = mk_grid (image_pixel_height s) (image_pixel_width s)
             (flat_display_pixel (screen_height s) (screen_width s) (image_pixel_height s)
                (image_pixel_width s) (distance_to_screen s) (pitch s) 0)
    \<and> projector_mask self
         = mk_grid h w (\<lambda>i j. fst (dome_display_entry second_image fp h w m_radius center d_radius position i j))
    \<and> animal_view_directions self
         = mk_grid h w (\<lambda>i j. snd (dome_display_entry second_image fp h w m_radius center d_radius position i j))
    \<and> vector_to_screen self = map (\<lambda>s. fst (screen_vectors (to_radians s))) scrs
    \<and> row_vector self = map (\<lambda>s. fst (snd (screen_vectors (to_radians s)))) scrs
    \<and> col_vector self = map (\<lambda>s. snd (snd (screen_vectors (to_radians s)))) scrs
    \<and> (\<exists>rs cs.
           emap (\<lambda>s. py_div (screen_height s) (real (image_pixel_height s))) (screens self) = Inr rs
         \<and> emap (\<lambda>s. py_div (screen_width s) (real (image_pixel_width s))) (screens self) = Inr cs
         \<and> contributing_pixels self
         = mk_grid h w (\<lambda>row col. contributing_pixel self rs cs (projector_mask self ! row ! col)
                          (animal_view_directions self ! row ! col)))"
proof -
  let ?self0 = "\<lparr>screens = map to_radians scrs,
                    projector_pixel_height = h,
                    projector_pixel_width = w,
                    first_projector_image = first_image,
                    second_projector_image = second_image,
                    mirror_radius = m_radius,
                    dome_center = center,
                    dome_radius = d_radius,
                    animal_position = position,
                    projector_pixel_row = int h - 1,
                    projector_pixel_col = int w div 2,
                    vector_to_screen = map (\<lambda>s. fst (screen_vectors (to_radians s))) scrs,
                    row_vector = map (\<lambda>s. fst (snd (screen_vectors (to_radians s)))) scrs,
                    col_vector = map (\<lambda>s. snd (snd (screen_vectors (to_radians s)))) scrs,
                    camera_view_directions = [],
                    projector_mask = [],
                    animal_view_directions = [],
                    contributing_pixels = []\<rparr>"
  from assms obtain s rest where s: "map to_radians scrs = s # rest"
    unfolding init_def Let_def by (cases "map to_radians scrs") auto
  from assms s obtain cvd where cvd: "flat_display_directions (screen_height s) (screen_width s)
        (image_pixel_height s) (image_pixel_width s) (distance_to_screen s) (pitch s) 0 = Inr cvd"
    unfolding init_def Let_def by (auto simp: ebind_eq_Inr)
  let ?self1 = "?self0\<lparr>camera_view_directions := cvd\<rparr>"
  from assms s cvd obtain self2 avd where d: "dome_display_directions ?self1 = Inr (self2, avd)"
    unfolding init_def Let_def by (auto simp: ebind_eq_Inr)
  let ?self3 = "self2\<lparr>animal_view_directions := avd\<rparr>"
  from assms s cvd d obtain cp where cp: "calc_contributing_pixels ?self3 = Inr cp"
    and self: "self = ?self3\<lparr>contributing_pixels := cp\<rparr>"
    unfolding init_def Let_def by (auto simp: ebind_eq_Inr)
  from dome_display_directions_Inr [OF d] obtain fp where
    fp: "calc_projector_focal_point first_image second_image = Inr fp"
    and self2: "self2 = ?self1\<lparr>projector_mask := mk_grid h w
          (\<lambda>i j. fst (dome_display_entry second_image fp h w m_radius center d_radius position i j))\<rparr>"
    and avd: "avd = mk_grid h w
          (\<lambda>i j. snd (dome_display_entry second_image fp h w m_radius center d_radius position i j))"
    by (auto simp: dome_display_entry_def)
  from calc_contributing_pixels_Inr [OF cp] obtain rs cs where
    rs: "emap (\<lambda>s. py_div (screen_height s) (real (image_pixel_height s))) (screens ?self3) = Inr rs"
    and cs: "emap (\<lambda>s. py_div (screen_width s) (real (image_pixel_width s))) (screens ?self3) = Inr cs"
    and cpeq: "cp = mk_grid (projector_pixel_height ?self3) (projector_pixel_width ?self3)
           (\<lambda>row col. contributing_pixel ?self3 rs cs (projector_mask ?self3 ! row ! col)
                          (animal_view_directions ?self3 ! row ! col))" by blast
  have cpx: "contributing_pixel ?self3 rs cs = contributing_pixel self rs cs"
    by (intro ext contributing_pixel_cong) (simp_all add: self)
  have c1: "\<exists>rs cs.
           emap (\<lambda>s. py_div (screen_height s) (real (image_pixel_height s))) (screens self) = Inr rs
         \<and> emap (\<lambda>s. py_div (screen_width s) (real (image_pixel_width s))) (screens self) = Inr cs
         \<and> contributing_pixels self
         = mk_grid h w (\<lambda>row col. contributing_pixel self rs cs (projector_mask self ! row ! col)
                          (animal_view_directions self ! row ! col))"
  proof -
    have "contributing_pixels self
         = mk_grid h w (\<lambda>row col. contributing_pixel self rs cs (projector_mask self ! row ! col)
                          (animal_view_directions self ! row ! col))"
      unfolding cpx [symmetric] by (simp add: self cpeq self2)
    moreover have "screens self = screens ?self3" by (simp add: self)
    ultimately show ?thesis
      using rs cs by (intro exI [of _ rs] exI [of _ cs]) simp
  qed
  have c2: "camera_view_directions self = mk_grid (image_pixel_height s) (image_pixel_width s)
             (flat_display_pixel (screen_height s) (screen_width s) (image_pixel_height s)
                (image_pixel_width s) (distance_to_screen s) (pitch s) 0)"
    using flat_display_directions_Inr [OF cvd] by (simp add: self self2)
  have c3: "screens self = map to_radians scrs" by (simp add: self self2)
  have c4: "projector_pixel_height self = h" "projector_pixel_width self = w"
    "projector_pixel_row self = int h - 1" "projector_pixel_col self = int w div 2"
    by (simp_all add: self self2)
  have c5: "projector_mask self
         = mk_grid h w (\<lambda>i j. fst (dome_display_entry second_image fp h w m_radius center d_radius position i j))"
    by (simp add: self self2)
  have c6: "animal_view_directions self
         = mk_grid h w (\<lambda>i j. snd (dome_display_entry second_image fp h w m_radius center d_radius position i j))"
    by (simp add: self self2 avd)
  have c7: "vector_to_screen self = map (\<lambda>s. fst (screen_vectors (to_radians s))) scrs"
    "row_vector self = map (\<lambda>s. fst (snd (screen_vectors (to_radians s)))) scrs"
    "col_vector self = map (\<lambda>s. snd (snd (screen_vectors (to_radians s)))) scrs"
    by (simp_all add: self self2)
  show ?thesis
    by (rule exI [of _ fp], rule exI [of _ s], rule exI [of _ rest])
       (intro conjI fp s c1 c2 c3 c4 c5 c6 c7)
qed

lemma emap_Inr:
  "emap f xs = Inr ys \<Longrightarrow> length ys = length xs \<and> (\<forall>k<length xs. f (xs ! k) = Inr (ys ! k))"
proof (induction xs arbitrary: ys)
  case Nil
  then show ?case by simp
next
  case (Cons x xs)
  from Cons.prems obtain y ys' where y: "f x = Inr y" and ys': "emap f xs = Inr ys'"
    and ys: "ys = y # ys'"
    by (auto simp: ebind_eq_Inr)
  from Cons.IH [OF ys'] show ?case using y ys by (auto simp: nth_Cons')
qed

lemma emap_succeeds:
  "(\<And>x. x \<in> set xs \<Longrightarrow> \<exists>y. f x = Inr y) \<Longrightarrow> \<exists>ys. emap f xs = Inr ys"
proof (induction xs)
  case Nil
  then show ?case by simp
next
  case (Cons x xs)
  then obtain y ys where "f x = Inr y" "emap f xs = Inr ys" by (meson list.set_intros)
  then show ?case by simp
qed

lemma incident_light_pixel_miss:
  "\<not> fge (mirror_d_squared p radius pd) (Fin 0) \<Longrightarrow> incident_light_pixel p radius pd = (0, zeros3)"
  by (simp add: incident_light_pixel_def)

lemma flt_not_fge: "flt x y \<Longrightarrow> \<not> fge x y"
  by (cases x; cases y) auto

lemma dome_display_pixel_miss:
  "\<not> fge (mirror_d_squared p radius pd) (Fin 0) \<Longrightarrow>
     dome_display_pixel p radius center d_radius position pd = (0, zeros3)"
  by (simp add: dome_display_pixel_def incident_light_pixel_miss reflectedLightDirection_def
       reflected_light_vector_def animal_view_direction_def)

lemma fst_dome_display_pixel:
  "fst (dome_display_pixel p radius center d_radius position pd)
     = fst (incident_light_pixel p radius pd)"
  by (simp add: dome_display_pixel_def Let_def case_prod_beta)

lemma contributing_pixel_unmasked: "m \<noteq> 1 \<Longrightarrow> contributing_pixel self rs cs m d = []"
  by (simp add: contributing_pixel_def)

lemma warp_pixel_empty: "warp_pixel images [] = Inr (0, 0, 0)"
  by (simp add: warp_pixel_def to_uint8_def)

lemma warp_image_for_dome_nth:
  assumes "warp_image_for_dome self images = Inr out"
    and "i < projector_pixel_height self" and "j < projector_pixel_width self"
  shows "warp_pixel images (contributing_pixels self ! i ! j) = Inr (out ! i ! j)"
proof -
  from assms(1) have e: "emap (\<lambda>row. emap (\<lambda>col. warp_pixel images (contributing_pixels self ! row ! col))
                           [0..<projector_pixel_width self])
               [0..<projector_pixel_height self] = Inr out"
    unfolding warp_image_for_dome_def by (auto simp: ebind_eq_Inr)
  from emap_Inr [OF e] assms(2)
  have "emap (\<lambda>col. warp_pixel images (contributing_pixels self ! i ! col))
                           [0..<projector_pixel_width self] = Inr (out ! i)"
    by auto
  from emap_Inr [OF this] assms(3) show ?thesis by auto
qed

lemma nearest_screen_fold:
  "foldl (nearest_screen_step d dts) (k0, v0) [a..<b] = (k, v) \<Longrightarrow>
     (k = k0 \<and> v = v0) \<or> (a \<le> k \<and> k < b)"
proof (induction b arbitrary: k v)
  case 0
  then show ?case by simp
next
  case (Suc b)
  show ?case
  proof (cases "a \<le> b")
    case False
    with Suc.prems show ?thesis by simp
  next
    case True
    obtain k1 v1 where f: "foldl (nearest_screen_step d dts) (k0, v0) [a..<b] = (k1, v1)"
      by (cases "foldl (nearest_screen_step d dts) (k0, v0) [a..<b]") auto
    from Suc.IH [OF f] have ih: "(k1 = k0 \<and> v1 = v0) \<or> (a \<le> k1 \<and> k1 < b)" .
    from Suc.prems True f have "nearest_screen_step d dts (k1, v1) b = (k, v)" by simp
    then have "(k, v) = (k1, v1) \<or> k = b"
      by (auto simp: nearest_screen_step_def Let_def split: if_splits)
    with ih True show ?thesis by auto
  qed
qed

lemma nearest_screen_range:
  assumes "nearest_screen d dts = (k, v)" and "fgt v (Fin 0)"
  shows "k < length dts"
proof -
  from nearest_screen_fold [OF assms(1) [unfolded nearest_screen_def]]
  have "(k = 0 \<and> v = Fin 0) \<or> k < length dts" by auto
  with assms(2) show ?thesis by auto
qed

lemma contributing_pixel_entry:
  assumes "(s, r, c) \<in> set (contributing_pixel self rs cs m d)"
  shows "s < length (screens self)
     \<and> (\<exists>x y. r = Fin x \<and> c = Fin y
            \<and> 0 \<le> x \<and> x < real (image_pixel_height (screens self ! s))
            \<and> 0 \<le> y \<and> y < real (image_pixel_width (screens self ! s)))"
proof -
  let ?dist = "map linalg_norm (vector_to_screen self)"
  let ?dts = "map (\<lambda>i. vdiv (vector_to_screen self ! i) (?dist ! i)) [0..<length (screens self)]"
  obtain k v where n: "nearest_screen d ?dts = (k, v)" by (cases "nearest_screen d ?dts") auto
  from assms n have all: "fgt v (Fin 0) \<and> s = k
      \<and> fge r (Fin 0) \<and> flt r (Fin (real (image_pixel_height (screens self ! k))))
      \<and> fge c (Fin 0) \<and> flt c (Fin (real (image_pixel_width (screens self ! k))))"
    by (simp add: contributing_pixel_def Let_def split: if_splits)
  then have v: "fgt v (Fin 0)" and s: "s = k"
    and rng: "fge r (Fin 0)" "flt r (Fin (real (image_pixel_height (screens self ! k))))"
      "fge c (Fin 0)" "flt c (Fin (real (image_pixel_width (screens self ! k))))"
    by simp_all
  from nearest_screen_range [OF n v] have "k < length (screens self)" by simp
  moreover from rng obtain x y where "r = Fin x" "c = Fin y" "0 \<le> x" "0 \<le> y"
    using fge_FinD by blast
  ultimately show ?thesis using rng s by auto
qed

lemma check_images_sizes:
  "check_images scrs imgs = Inr () \<Longrightarrow>
     length imgs \<le> length scrs
     \<and> (\<forall>k<length imgs. image_size (imgs ! k)
            = (image_pixel_width (scrs ! k), image_pixel_height (scrs ! k)))"
proof (induction scrs imgs rule: check_images.induct)
  case (1 scrs)
  then show ?case by simp
next
  case (2 img imgs)
  then show ?case by simp
next
  case (3 s scrs img imgs)
  then show ?case by (auto simp: nth_Cons' split: if_splits)
qed

lemma float_index_in_range:
  "0 \<le> x \<Longrightarrow> x < real n \<Longrightarrow> float_index n (Fin x) = Inr (nat \<lfloor>x\<rfloor>) \<and> nat \<lfloor>x\<rfloor> < n"
proof -
  assume a: "0 \<le> x" "x < real n"
  then have "0 \<le> \<lfloor>x\<rfloor>" "\<lfloor>x\<rfloor> < int n" by (simp_all add: floor_less_iff)
  then show ?thesis using a by (simp add: float_index_def np_index_def)
qed

lemma read_pixel_in_range:
  assumes "s < length pixels" and "image_size (pixels ! s) = (w, h)"
    and "0 \<le> x" "x < real h" "0 \<le> y" "y < real w"
  shows "read_pixel pixels (s, Fin x, Fin y) = Inr (image_array (pixels ! s) (nat \<lfloor>x\<rfloor>) (nat \<lfloor>y\<rfloor>))"
  using assms float_index_in_range [of x h] float_index_in_range [of y w]
  by (simp add: read_pixel_def)

lemma accumulate_const:
  assumes "\<And>p. p \<in> set cps \<Longrightarrow> read_pixel pixels p = Inr (r, g, b)"
  shows "accumulate pixels cps (x, y, z)
           = Inr (x + real (length cps) * real (unat r),
                  y + real (length cps) * real (unat g),
                  z + real (length cps) * real (unat b))"
  using assms
proof (induction cps arbitrary: x y z)
  case Nil
  then show ?case by simp
next
  case (Cons p cps)
  then show ?case by (simp add: algebra_simps)
qed

lemma accumulate_succeeds:
  "(\<And>p. p \<in> set cps \<Longrightarrow> \<exists>v. read_pixel pixels p = Inr v) \<Longrightarrow>
     \<exists>pv. accumulate pixels cps acc = Inr pv"
proof (induction cps arbitrary: acc)
  case Nil
  show ?case by (rule exI [of _ acc]) simp
next
  case (Cons p cps)
  then obtain v where "read_pixel pixels p = Inr v" by (meson list.set_intros)
  with Cons show ?case by simp
qed

lemma warp_pixel_succeeds:
  assumes "\<And>p. p \<in> set cps \<Longrightarrow> \<exists>v. read_pixel pixels p = Inr v"
  shows "\<exists>v. warp_pixel pixels cps = Inr v"
proof -
  from accumulate_succeeds [OF assms] obtain pv where "accumulate pixels cps (0, 0, 0) = Inr pv"
    by blast
  then show ?thesis by (cases pv) (simp add: warp_pixel_def Let_def)
qed

lemma to_uint8_unat: "to_uint8 (real (unat w)) = w"
proof -
  have "\<lfloor>real (unat w)\<rfloor> = int (unat w)" by (rule floor_of_nat)
  then have "to_uint8 (real (unat w)) = word_of_int (int (unat w))"
    unfolding to_uint8_def by (rule arg_cong)
  also have "\<dots> = w" by simp
  finally show ?thesis .
qed

lemma warp_pixel_const:
  assumes "\<And>p. p \<in> set cps \<Longrightarrow> read_pixel pixels p = Inr C" and "cps \<noteq> []"
  shows "warp_pixel pixels cps = Inr C"
proof -
  obtain r g b where C: "C = (r, g, b)" by (cases C) auto
  have "accumulate pixels cps (0, 0, 0)
           = Inr (0 + real (length cps) * real (unat r),
                  0 + real (length cps) * real (unat g),
                  0 + real (length cps) * real (unat b))"
    using assms(1) unfolding C by (rule accumulate_const)
  then show ?thesis using assms(2) to_uint8_unat [of r] to_uint8_unat [of g] to_uint8_unat [of b]
    by (simp add: warp_pixel_def C)
qed

lemma warp_image_for_dome_succeeds:
  assumes "check_images (screens self) images = Inr ()"
    and "\<And>i j p. i < projector_pixel_height self \<Longrightarrow> j < projector_pixel_width self \<Longrightarrow>
            p \<in> set (contributing_pixels self ! i ! j) \<Longrightarrow> \<exists>v. read_pixel images p = Inr v"
  shows "\<exists>out. warp_image_for_dome self images = Inr out"
proof -
  have row: "\<exists>ys. emap (\<lambda>col. warp_pixel images (contributing_pixels self ! i ! col))
                           [0..<projector_pixel_width self] = Inr ys"
    if "i < projector_pixel_height self" for i
    by (rule emap_succeeds) (use that assms(2) warp_pixel_succeeds in auto)
  have "\<exists>out. emap (\<lambda>row. emap (\<lambda>col. warp_pixel images (contributing_pixels self ! row ! col))
                           [0..<projector_pixel_width self])
               [0..<projector_pixel_height self] = Inr out"
    by (rule emap_succeeds) (use row in auto)
  then show ?thesis by (simp add: warp_image_for_dome_def assms(1))
qed

lemma warp_image_for_dome_shape:
  assumes "warp_image_for_dome self images = Inr out"
  shows "length out = projector_pixel_height self
       \<and> (\<forall>i<projector_pixel_height self. length (out ! i) = projector_pixel_width self)"
proof -
  from assms(1) have e: "emap (\<lambda>row. emap (\<lambda>col. warp_pixel images (contributing_pixels self ! row ! col))
                           [0..<projector_pixel_width self])
               [0..<projector_pixel_height self] = Inr out"
    unfolding warp_image_for_dome_def by (auto simp: ebind_eq_Inr)
  from emap_Inr [OF e] have l: "length out = projector_pixel_height self"
    and r: "\<forall>i<projector_pixel_height self.
      emap (\<lambda>col. warp_pixel images (contributing_pixels self ! i ! col))
                           [0..<projector_pixel_width self] = Inr (out ! i)"
    by auto
  show ?thesis using l r emap_Inr by fastforce
qed

text \<open>Every entry of the table of a constructed object can be read from images of the
  configured sizes.\<close>

lemma table_entry_readable:
  assumes init: "init scrs h w first_image second_image m_radius center d_radius position = Inr self"
    and len: "length images = length (screens self)"
    and chk: "check_images (screens self) images = Inr ()"
    and i: "i < h" and j: "j < w"
    and p: "p \<in> set (contributing_pixels self ! i ! j)"
  shows "\<exists>x y. p = (fst p, Fin x, Fin y) \<and> fst p < length images
           \<and> nat \<lfloor>x\<rfloor> < snd (image_size (images ! fst p))
           \<and> nat \<lfloor>y\<rfloor> < fst (image_size (images ! fst p))
           \<and> read_pixel images p
               = Inr (image_array (images ! fst p) (nat \<lfloor>x\<rfloor>) (nat \<lfloor>y\<rfloor>))"
proof -
  from init_Inr [OF init] obtain rs cs where
    cp: "contributing_pixels self
         = mk_grid h w (\<lambda>row col. contributing_pixel self rs cs (projector_mask self ! row ! col)
                          (animal_view_directions self ! row ! col))"
    by blast
  obtain s r c where pe: "p = (s, r, c)" by (cases p) auto
  from p i j have "(s, r, c) \<in> set (contributing_pixel self rs cs (projector_mask self ! i ! j)
                          (animal_view_directions self ! i ! j))"
    by (simp add: cp mk_grid_nth pe)
  from contributing_pixel_entry [OF this] obtain x y where
    s: "s < length (screens self)" and r: "r = Fin x" and c: "c = Fin y"
    and x: "0 \<le> x" "x < real (image_pixel_height (screens self ! s))"
    and y: "0 \<le> y" "y < real (image_pixel_width (screens self ! s))"
    by blast
  from check_images_sizes [OF chk] s len
  have sz: "image_size (images ! s)
              = (image_pixel_width (screens self ! s), image_pixel_height (screens self ! s))"
    by simp
  have sl: "s < length images" using s len by simp
  have "read_pixel images (s, Fin x, Fin y)
           = Inr (image_array (images ! s) (nat \<lfloor>x\<rfloor>) (nat \<lfloor>y\<rfloor>))"
    by (rule read_pixel_in_range [OF sl sz x y])
  moreover have "nat \<lfloor>x\<rfloor> < image_pixel_height (screens self ! s)"
    using float_index_in_range [OF x] by simp
  moreover have "nat \<lfloor>y\<rfloor> < image_pixel_width (screens self ! s)"
    using float_index_in_range [OF y] by simp
  ultimately show ?thesis using sl sz by (auto simp: pe r c)
qed

lemma calc_contributing_pixels_succeeds:
  assumes "\<And>s. s \<in> set (screens self) \<Longrightarrow> image_pixel_height s \<noteq> 0 \<and> image_pixel_width s \<noteq> 0"
  shows "\<exists>cp. calc_contributing_pixels self = Inr cp"
proof -
  have "\<exists>rs. emap (\<lambda>s. py_div (screen_height s) (real (image_pixel_height s))) (screens self) = Inr rs"
    by (rule emap_succeeds) (use assms in \<open>auto simp: py_div_def\<close>)
  moreover have "\<exists>cs. emap (\<lambda>s. py_div (screen_width s) (real (image_pixel_width s))) (screens self) = Inr cs"
    by (rule emap_succeeds) (use assms in \<open>auto simp: py_div_def\<close>)
  ultimately show ?thesis by (auto simp: calc_contributing_pixels_def)
qed

lemma dome_display_directions_succeeds:
  assumes "calc_projector_focal_point (first_projector_image self) (second_projector_image self) = Inr fp"
    and "\<not> (projector_pixel_height self = 0 \<and> 2 \<le> projector_pixel_width self)"
  shows "\<exists>self' avd. dome_display_directions self = Inr (self', avd) \<and> screens self' = screens self"
  using assms
  by (auto simp: dome_display_directions_def flat_display_directions_def Let_def split: prod.splits)

lemma init_succeeds:
  assumes focal: "calc_projector_focal_point first_image second_image = Inr fp"
    and scrs: "scrs = s # rest"
    and proj: "\<not> (h = 0 \<and> 2 \<le> w)"
    and cam: "\<not> (image_pixel_height s = 0 \<and> 2 \<le> image_pixel_width s)"
    and imgs: "\<And>s. s \<in> set scrs \<Longrightarrow> image_pixel_height s \<noteq> 0 \<and> image_pixel_width s \<noteq> 0"
  shows "\<exists>self. init scrs h w first_image second_image m_radius center d_radius position = Inr self"
proof -
  let ?self0 = "\<lparr>screens = map to_radians scrs,
                    projector_pixel_height = h,
                    projector_pixel_width = w,
                    first_projector_image = first_image,
                    second_projector_image = second_image,
                    mirror_radius = m_radius,
                    dome_center = center,
                    dome_radius = d_radius,
                    animal_position = position,
                    projector_pixel_row = int h - 1,
                    projector_pixel_col = int w div 2,
                    vector_to_screen = map (\<lambda>s. fst (screen_vectors (to_radians s))) scrs,
                    row_vector = map (\<lambda>s. fst (snd (screen_vectors (to_radians s)))) scrs,
                    col_vector = map (\<lambda>s. snd (snd (screen_vectors (to_radians s)))) scrs,
                    camera_view_directions = [],
                    projector_mask = [],
                    animal_view_directions = [],
                    contributing_pixels = []\<rparr>"
  let ?s = "to_radians s"
  obtain cvd where cvd: "flat_display_directions (screen_height ?s) (screen_width ?s)
        (image_pixel_height ?s) (image_pixel_width ?s) (distance_to_screen ?s) (pitch ?s) 0 = Inr cvd"
    using cam by (auto simp: flat_display_directions_def to_radians_def)
  let ?self1 = "?self0\<lparr>camera_view_directions := cvd\<rparr>"
  from dome_display_directions_succeeds [of ?self1 fp] focal proj
  obtain self2 avd where d: "dome_display_directions ?self1 = Inr (self2, avd)"
    and sc: "screens self2 = map to_radians scrs" by auto
  let ?self3 = "self2\<lparr>animal_view_directions := avd\<rparr>"
  have "\<exists>cp. calc_contributing_pixels ?self3 = Inr cp"
    by (rule calc_contributing_pixels_succeeds) (use imgs sc in \<open>auto simp: to_radians_def\<close>)
  then obtain cp where cp: "calc_contributing_pixels ?self3 = Inr cp" by blast
  have cs: "\<And>(a :: error + dome) f.
      (case map to_radians scrs of [] \<Rightarrow> a | x # xs \<Rightarrow> f x xs) = f ?s (map to_radians rest)"
    by (simp add: scrs)
  show ?thesis
    using d cp by (simp add: init_def Let_def cs cvd)
qed

section \<open>An example configuration\<close>

lemma example_focal_point:
  "calc_projector_focal_point example_first_image example_second_image = Inr (0, 3, 0)"
  by (simp add: calc_projector_focal_point_def example_first_image_def example_second_image_def
        py_div_def linalg_solve_def Let_def)

lemma example_init:
  "\<exists>self. init example_screens 3 3 example_first_image example_second_image m_radius center
      d_radius position = Inr self"
  by (rule init_succeeds [OF example_focal_point, of _ "hd example_screens" "[]"])
     (simp_all add: example_screens_def)

lemma example_projector_image:
  "projector_image example_second_image (0, 3, 0) = (4, 2, - 2, 0)"
  by (simp add: projector_image_def example_second_image_def Let_def)

lemma sqrt_9: "sqrt 9 = 3"
  using real_sqrt_abs [of 3] by simp

lemma example_corner_direction:
  "projector_pixel_direction example_second_image (0, 3, 0) 3 3 0 0
     = (Fin (1 / 3), Fin (- 2 / 3), Fin (2 / 3))"
  by (simp add: projector_pixel_direction_def example_projector_image flat_display_pixel_def
        flip_x_def Let_def sq_def sqrt_9)

lemma example_centre_direction:
  "projector_pixel_direction example_second_image (0, 3, 0) 3 3 1 1
     = (Fin 0, Fin (- 1), Fin 0)"
  by (simp add: projector_pixel_direction_def example_projector_image flat_display_pixel_def
        flip_x_def Let_def sq_def)

lemma example_corner_misses:
  "mirror_d_squared (fpoint (0, 3, 0)) 1 (Fin (1 / 3), Fin (- 2 / 3), Fin (2 / 3)) = Fin (- 16)"
  by (simp add: mirror_d_squared_def mirror_a_def mirror_b_def mirror_c_def sq_def)

section \<open>Pixels that miss the mirror\<close>

text \<open>
  C5. In an object returned by the constructor, a projector pixel whose mirror quadratic
  has a negative discriminant has mask 0 and an empty list of contributing pixels. Its
  warped value is black for every list of images whatsoever, so no image is read for it:
  the entry of every output of \<open>warp_image_for_dome\<close> is \<open>(0, 0, 0)\<close>, and an output
  exists whenever there is one image of the configured size per screen.
\<close>

theorem miss_pixel_is_black:
  assumes init: "init scrs h w first_image second_image m_radius center d_radius position = Inr self"
    and fp: "calc_projector_focal_point first_image second_image = Inr fp"
    and i: "i < h" and j: "j < w"
    and miss: "flt (mirror_d_squared (fpoint fp) m_radius
                      (projector_pixel_direction second_image fp h w i j)) (Fin 0)"
  shows "projector_mask self ! i ! j = 0
       \<and> contributing_pixels self ! i ! j = []
       \<and> (\<forall>images. warp_pixel images (contributing_pixels self ! i ! j) = Inr (0, 0, 0))
       \<and> (\<forall>images out. warp_image_for_dome self images = Inr out \<longrightarrow> out ! i ! j = (0, 0, 0))
       \<and> (\<forall>images. length images = length (screens self)
              \<and> check_images (screens self) images = Inr ()
            \<longrightarrow> (\<exists>out. warp_image_for_dome self images = Inr out \<and> out ! i ! j = (0, 0, 0)))"
proof -
  from init_Inr [OF init] fp obtain rs cs where
    hw: "projector_pixel_height self = h" "projector_pixel_width self = w"
    and pm: "projector_mask self
         = mk_grid h w (\<lambda>i j. fst (dome_display_entry second_image fp h w m_radius center d_radius position i j))"
    and cp: "contributing_pixels self
         = mk_grid h w (\<lambda>row col. contributing_pixel self rs cs (projector_mask self ! row ! col)
                          (animal_view_directions self ! row ! col))"
    by auto
  have m0: "projector_mask self ! i ! j = 0"
    using i j miss
    by (simp add: pm mk_grid_nth dome_display_entry_def dome_display_pixel_miss flt_not_fge)
  have c0: "contributing_pixels self ! i ! j = []"
    using i j by (simp add: cp mk_grid_nth m0 contributing_pixel_unmasked)
  have w0: "warp_pixel images (contributing_pixels self ! i ! j) = Inr (0, 0, 0)" for images
    by (simp add: c0 warp_pixel_empty)
  have o0: "out ! i ! j = (0, 0, 0)" if "warp_image_for_dome self images = Inr out" for images out
    using warp_image_for_dome_nth [OF that, of i j] i j hw w0 by simp
  have ex: "\<exists>out. warp_image_for_dome self images = Inr out \<and> out ! i ! j = (0, 0, 0)"
    if len: "length images = length (screens self)"
      and chk: "check_images (screens self) images = Inr ()" for images
  proof -
    have "\<exists>out. warp_image_for_dome self images = Inr out"
    proof (rule warp_image_for_dome_succeeds [OF chk])
      fix i j p
      assume "i < projector_pixel_height self" "j < projector_pixel_width self"
        and p: "p \<in> set (contributing_pixels self ! i ! j)"
      then have "i < h" "j < w" by (simp_all add: hw)
      from table_entry_readable [OF init len chk this p]
      show "\<exists>v. read_pixel images p = Inr v" by blast
    qed
    then show ?thesis using o0 by blast
  qed
  show ?thesis using m0 c0 w0 o0 ex by blast
qed

theorem miss_pixel_is_black_witness:
  "\<exists>self. init example_screens 3 3 example_first_image example_second_image 1 (0, 0, 0) 2 (0, 0, 0)
            = Inr self
     \<and> calc_projector_focal_point example_first_image example_second_image = Inr (0, 3, 0)
     \<and> (0 :: nat) < 3
     \<and> flt (mirror_d_squared (fpoint (0, 3, 0)) 1
               (projector_pixel_direction example_second_image (0, 3, 0) 3 3 0 0)) (Fin 0)
     \<and> projector_mask self ! 0 ! 0 = 0
     \<and> contributing_pixels self ! 0 ! 0 = []
     \<and> (\<forall>images. warp_pixel images (contributing_pixels self ! 0 ! 0) = Inr (0, 0, 0))
     \<and> (\<forall>images out. warp_image_for_dome self images = Inr out \<longrightarrow> out ! 0 ! 0 = (0, 0, 0))
     \<and> (\<forall>images. length images = length (screens self)
              \<and> check_images (screens self) images = Inr ()
            \<longrightarrow> (\<exists>out. warp_image_for_dome self images = Inr out \<and> out ! 0 ! 0 = (0, 0, 0)))"
proof -
  obtain self where init: "init example_screens 3 3 example_first_image example_second_image
      1 (0, 0, 0) 2 (0, 0, 0) = Inr self"
    using example_init by blast
  have pos: "(0 :: nat) < 3" by simp
  have miss: "flt (mirror_d_squared (fpoint (0, 3, 0)) 1
               (projector_pixel_direction example_second_image (0, 3, 0) 3 3 0 0)) (Fin 0)"
    using example_corner_misses by (simp add: example_corner_direction)
  note res = miss_pixel_is_black [OF init example_focal_point pos pos miss]
  show ?thesis
    by (rule exI [of _ self]) (intro conjI init example_focal_point pos miss
          res [THEN conjunct1] res [THEN conjunct2, THEN conjunct1]
          res [THEN conjunct2, THEN conjunct2, THEN conjunct1]
          res [THEN conjunct2, THEN conjunct2, THEN conjunct2, THEN conjunct1]
          res [THEN conjunct2, THEN conjunct2, THEN conjunct2, THEN conjunct2])
qed

section \<open>The centre pixel of the example\<close>

lemma sqrt_16: "sqrt 16 = 4"
  using real_sqrt_abs [of 4] by simp

lemma example_centre_pixel:
  "dome_display_pixel (fpoint (0, 3, 0)) 1 (0, 0, 0) 2 (0, 0, 0) (Fin 0, Fin (- 1), Fin 0)
     = (1, (Fin 0, Fin 1, Fin 0))"
proof -
  have d: "mirror_d_squared (Fin 0, Fin 3, Fin 0) 1 (Fin 0, Fin (- 1), Fin 0) = Fin 4"
    by (simp add: mirror_d_squared_def mirror_a_def mirror_b_def mirror_c_def sq_def)
  have r: "mirror_r (Fin 0, Fin 3, Fin 0) 1 (Fin 0, Fin (- 1), Fin 0) = Fin 2"
    using d by (simp add: mirror_r_def mirror_a_def mirror_b_def sq_def Let_def py_min2_def)
  have i: "incident_light_pixel (Fin 0, Fin 3, Fin 0) 1 (Fin 0, Fin (- 1), Fin 0)
        = (1, (Fin 0, Fin (- 2), Fin 0))"
    using d r by (simp add: incident_light_pixel_def)
  have m: "mirror_radius_vector (Fin 0, Fin 3, Fin 0) (Fin 0, Fin (- 2), Fin 0) = (Fin 0, Fin 1, Fin 0)"
    by (simp add: mirror_radius_vector_def)
  have u: "mirrorUnitNormal (Fin 0, Fin 1, Fin 0) 1 = (Fin 0, Fin 1, Fin 0)"
    by (simp add: mirrorUnitNormal_def)
  have rl: "reflectedLightDirection 1 (Fin 0, Fin (- 2), Fin 0) (Fin 0, Fin 1, Fin 0)
       = (Fin 0, Fin 1, Fin 0)"
    by (simp add: reflectedLightDirection_def Let_def sq_def)
  have dd: "dome_d_squared (Fin 0, Fin 1, Fin 0) (0, 0, 0) 2 (Fin 0, Fin 1, Fin 0) = Fin 16"
    by (simp add: dome_d_squared_def dome_a_def dome_b_def dome_c_def sq_def Let_def)
  have rv: "reflected_light_vector 1 (Fin 0, Fin 1, Fin 0) (0, 0, 0) 2 (Fin 0, Fin 1, Fin 0)
       = (Fin 0, Fin 1, Fin 0)"
    using dd by (simp add: reflected_light_vector_def dome_a_def dome_b_def sq_def Let_def
        py_max2_def sqrt_16)
  have av: "animal_view_direction 1 (Fin 0, Fin 1, Fin 0) (Fin 0, Fin 1, Fin 0) (0, 0, 0)
       = (Fin 0, Fin 1, Fin 0)"
    by (simp add: animal_view_direction_def Let_def sq_def)
  show ?thesis
    using i m u rl rv av by (simp add: dome_display_pixel_def Let_def)
qed

lemma example_screen_vectors:
  "screen_vectors (to_radians (hd example_screens))
     = ((Fin 0, Fin 1, Fin 0), (Fin 0, Fin 0, Fin (- 1)), (Fin 1, Fin 0, Fin 0))"
  by (simp add: screen_vectors_def to_radians_def example_screens_def Let_def sq_def)

lemma example_table_centre:
  assumes init: "init example_screens 3 3 example_first_image example_second_image 1 (0, 0, 0) 2
      (0, 0, 0) = Inr self"
  shows "projector_mask self ! 1 ! 1 = 1"
    and "animal_view_directions self ! 1 ! 1 = (Fin 0, Fin 1, Fin 0)"
    and "contributing_pixels self ! 1 ! 1 = [(0, Fin 1, Fin 1)]"
proof -
  from init_Inr [OF init] example_focal_point obtain rs cs where
    sc: "screens self = map to_radians example_screens"
    and pm: "projector_mask self
         = mk_grid 3 3 (\<lambda>i j. fst (dome_display_entry example_second_image (0, 3, 0) 3 3 1 (0, 0, 0) 2 (0, 0, 0) i j))"
    and avd: "animal_view_directions self
         = mk_grid 3 3 (\<lambda>i j. snd (dome_display_entry example_second_image (0, 3, 0) 3 3 1 (0, 0, 0) 2 (0, 0, 0) i j))"
    and vs: "vector_to_screen self = map (\<lambda>s. fst (screen_vectors (to_radians s))) example_screens"
    and rv: "row_vector self = map (\<lambda>s. fst (snd (screen_vectors (to_radians s)))) example_screens"
    and cv: "col_vector self = map (\<lambda>s. snd (snd (screen_vectors (to_radians s)))) example_screens"
    and rs: "emap (\<lambda>s. py_div (screen_height s) (real (image_pixel_height s))) (screens self) = Inr rs"
    and cs: "emap (\<lambda>s. py_div (screen_width s) (real (image_pixel_width s))) (screens self) = Inr cs"
    and cp: "contributing_pixels self
         = mk_grid 3 3 (\<lambda>row col. contributing_pixel self rs cs (projector_mask self ! row ! col)
                          (animal_view_directions self ! row ! col))"
    by auto
  have e: "dome_display_entry example_second_image (0, 3, 0) 3 3 1 (0, 0, 0) 2 (0, 0, 0) 1 1
       = (1, (Fin 0, Fin 1, Fin 0))"
    unfolding dome_display_entry_def example_centre_direction by (rule example_centre_pixel)
  show m1: "projector_mask self ! 1 ! 1 = 1" using e by (simp add: pm mk_grid_nth)
  show a1: "animal_view_directions self ! 1 ! 1 = (Fin 0, Fin 1, Fin 0)"
    using e by (simp add: avd mk_grid_nth)
  have ex: "map f example_screens = [f (hd example_screens)]" for f :: "screen \<Rightarrow> 'b"
    by (simp add: example_screens_def)
  have sv: "screen_vectors (to_radians (hd example_screens))
     = ((Fin 0, Fin 1, Fin 0), (Fin 0, Fin 0, Fin (- 1)), (Fin 1, Fin 0, Fin 0))"
    by (rule example_screen_vectors)
  have vs': "vector_to_screen self = [(Fin 0, Fin 1, Fin 0)]"
    and rv': "row_vector self = [(Fin 0, Fin 0, Fin (- 1))]"
    and cv': "col_vector self = [(Fin 1, Fin 0, Fin 0)]"
    by (simp_all add: vs rv cv ex sv)
  have sc': "screens self = [to_radians (hd example_screens)]"
    by (simp add: sc ex)
  have dims: "image_pixel_height (to_radians (hd example_screens)) = 2"
    "image_pixel_width (to_radians (hd example_screens)) = 2"
    "screen_height (to_radians (hd example_screens)) = 1"
    "screen_width (to_radians (hd example_screens)) = 1"
    by (simp_all add: to_radians_def example_screens_def)
  have rs': "rs = [1 / 2]" using rs by (simp add: sc' dims py_div_def)
  have cs': "cs = [1 / 2]" using cs by (simp add: sc' dims py_div_def)
  have ns: "nearest_screen (Fin 0, Fin 1, Fin 0) [(Fin 0, Fin 1, Fin 0)] = (0, Fin 1)"
    by (simp add: nearest_screen_def nearest_screen_step_def Let_def)
  have "contributing_pixel self rs cs 1 (Fin 0, Fin 1, Fin 0) = [(0, Fin 1, Fin 1)]"
    by (simp add: contributing_pixel_def vs' rv' cv' sc' dims rs' cs' sq_def ns Let_def)
  then show "contributing_pixels self ! 1 ! 1 = [(0, Fin 1, Fin 1)]"
    using m1 a1 by (simp add: cp mk_grid_nth)
qed

lemma example_screens_of:
  assumes "init example_screens 3 3 example_first_image example_second_image m_radius center
      d_radius position = Inr self"
  shows "screens self = [to_radians (hd example_screens)]"
  using init_Inr [OF assms] by (auto simp: example_screens_def)

section \<open>Warping constant images\<close>

text \<open>
  C10. In an object returned by the constructor, given one image of the configured size
  per screen, all filled with the colour \<open>C\<close>, \<open>warp_image_for_dome\<close> returns an image
  of the projector's resolution in which every pixel with a non-empty list of contributing
  pixels is \<open>C\<close> and every pixel with an empty list is black; a pixel whose mask is not 1
  has an empty list.
\<close>

theorem constant_image_warp:
  assumes init: "init scrs h w first_image second_image m_radius center d_radius position = Inr self"
    and len: "length images = length (screens self)"
    and chk: "check_images (screens self) images = Inr ()"
    and const: "\<forall>img \<in> set images. \<forall>r < snd (image_size img). \<forall>c < fst (image_size img).
                  image_array img r c = C"
  shows "\<exists>out. warp_image_for_dome self images = Inr out
           \<and> length out = h
           \<and> (\<forall>i<h. length (out ! i) = w
                \<and> (\<forall>j<w. (contributing_pixels self ! i ! j \<noteq> [] \<longrightarrow> out ! i ! j = C)
                       \<and> (contributing_pixels self ! i ! j = [] \<longrightarrow> out ! i ! j = (0, 0, 0))
                       \<and> (projector_mask self ! i ! j \<noteq> 1
                             \<longrightarrow> contributing_pixels self ! i ! j = [])))"
proof -
  from init_Inr [OF init] obtain rs cs where
    hw: "projector_pixel_height self = h" "projector_pixel_width self = w"
    and cp: "contributing_pixels self
         = mk_grid h w (\<lambda>row col. contributing_pixel self rs cs (projector_mask self ! row ! col)
                          (animal_view_directions self ! row ! col))"
    by auto
  have rd: "read_pixel images p = Inr C"
    if "i < h" "j < w" "p \<in> set (contributing_pixels self ! i ! j)" for i j p
  proof -
    from table_entry_readable [OF init len chk that] obtain x y :: real where
      s: "fst p < length images"
      and x: "nat \<lfloor>x\<rfloor> < snd (image_size (images ! fst p))"
      and y: "nat \<lfloor>y\<rfloor> < fst (image_size (images ! fst p))"
      and r: "read_pixel images p = Inr (image_array (images ! fst p) (nat \<lfloor>x\<rfloor>) (nat \<lfloor>y\<rfloor>))"
      by blast
    from s have "images ! fst p \<in> set images" by simp
    with const x y have "image_array (images ! fst p) (nat \<lfloor>x\<rfloor>) (nat \<lfloor>y\<rfloor>) = C" by blast
    with r show ?thesis by simp
  qed
  have "\<exists>out. warp_image_for_dome self images = Inr out"
  proof (rule warp_image_for_dome_succeeds [OF chk])
    fix i j p
    assume "i < projector_pixel_height self" "j < projector_pixel_width self"
      and p: "p \<in> set (contributing_pixels self ! i ! j)"
    then have "i < h" "j < w" by (simp_all add: hw)
    from rd [OF this p] show "\<exists>v. read_pixel images p = Inr v" by blast
  qed
  then obtain out where out: "warp_image_for_dome self images = Inr out" by blast
  note shape = warp_image_for_dome_shape [OF out, unfolded hw]
  have px: "(contributing_pixels self ! i ! j \<noteq> [] \<longrightarrow> out ! i ! j = C)
          \<and> (contributing_pixels self ! i ! j = [] \<longrightarrow> out ! i ! j = (0, 0, 0))
          \<and> (projector_mask self ! i ! j \<noteq> 1 \<longrightarrow> contributing_pixels self ! i ! j = [])"
    if i: "i < h" and j: "j < w" for i j
  proof -
    have o: "warp_pixel images (contributing_pixels self ! i ! j) = Inr (out ! i ! j)"
      using warp_image_for_dome_nth [OF out, of i j] i j hw by simp
    have a: "out ! i ! j = C" if ne: "contributing_pixels self ! i ! j \<noteq> []"
    proof -
      have "warp_pixel images (contributing_pixels self ! i ! j) = Inr C"
        by (rule warp_pixel_const [OF rd [OF i j] ne])
      with o show ?thesis by simp
    qed
    have b: "out ! i ! j = (0, 0, 0)" if "contributing_pixels self ! i ! j = []"
      using o that by (simp add: warp_pixel_empty)
    have c: "contributing_pixels self ! i ! j = []" if "projector_mask self ! i ! j \<noteq> 1"
      using i j that by (simp add: cp mk_grid_nth contributing_pixel_unmasked)
    from a b c show ?thesis by blast
  qed
  show ?thesis
    using out shape px by (intro exI [of _ out]) simp
qed

theorem constant_image_warp_witness:
  "\<exists>self out.
       init example_screens 3 3 example_first_image example_second_image 1 (0, 0, 0) 2 (0, 0, 0)
         = Inr self
     \<and> length [example_image] = length (screens self)
     \<and> check_images (screens self) [example_image] = Inr ()
     \<and> (\<forall>img \<in> set [example_image]. \<forall>r < snd (image_size img). \<forall>c < fst (image_size img).
            image_array img r c = (7, 8, 9))
     \<and> warp_image_for_dome self [example_image] = Inr out
     \<and> length out = 3
     \<and> (\<forall>i<3. length (out ! i) = 3
           \<and> (\<forall>j<3. (contributing_pixels self ! i ! j \<noteq> [] \<longrightarrow> out ! i ! j = (7, 8, 9))
                  \<and> (contributing_pixels self ! i ! j = [] \<longrightarrow> out ! i ! j = (0, 0, 0))
                  \<and> (projector_mask self ! i ! j \<noteq> 1
                        \<longrightarrow> contributing_pixels self ! i ! j = [])))
     \<and> contributing_pixels self ! 1 ! 1 = [(0, Fin 1, Fin 1)]
     \<and> out ! 1 ! 1 = (7, 8, 9)"
proof -
  obtain self where init: "init example_screens 3 3 example_first_image example_second_image
      1 (0, 0, 0) 2 (0, 0, 0) = Inr self"
    using example_init by blast
  note sc = example_screens_of [OF init]
  have len: "length [example_image] = length (screens self)" by (simp add: sc)
  have chk: "check_images (screens self) [example_image] = Inr ()"
    by (simp add: sc example_image_def to_radians_def example_screens_def)
  have const: "\<forall>img \<in> set [example_image]. \<forall>r < snd (image_size img).
      \<forall>c < fst (image_size img). image_array img r c = (7, 8, 9)"
    by (simp add: example_image_def)
  from constant_image_warp [OF init len chk const] obtain out where
    out: "warp_image_for_dome self [example_image] = Inr out"
    and l: "length out = 3"
    and px: "\<forall>i<3. length (out ! i) = 3
           \<and> (\<forall>j<3. (contributing_pixels self ! i ! j \<noteq> [] \<longrightarrow> out ! i ! j = (7, 8, 9))
                  \<and> (contributing_pixels self ! i ! j = [] \<longrightarrow> out ! i ! j = (0, 0, 0))
                  \<and> (projector_mask self ! i ! j \<noteq> 1
                        \<longrightarrow> contributing_pixels self ! i ! j = []))"
    by blast
  note c = example_table_centre(3) [OF init]
  have "(1 :: nat) < 3" by simp
  with px c have o: "out ! 1 ! 1 = (7, 8, 9)" by (metis list.distinct(1))
  show ?thesis
    by (rule exI [of _ self], rule exI [of _ out]) (intro conjI init len chk const out l px c o)
qed

section \<open>Failure of the focal point solver\<close>

text \<open>When the two calibration images are at the same distance \<open>y1 = y2\<close>, no
  coefficient matrix is built: the division that computes the first slope raises
  \<open>ZeroDivisionError\<close>.\<close>

lemma focal_point_equal_distances:
  "px1 (corner0 second_image) = px1 (corner0 first_image) \<Longrightarrow>
     calc_projector_focal_point first_image second_image = Inl ZeroDivisionError"
  by (simp add: calc_projector_focal_point_def Let_def py_div_def)



section \<open>Normalised vectors\<close>

lemma sum_squares3_nonneg: "0 \<le> x * x + y * y + z * (z :: real)"
  by (simp add: add_nonneg_nonneg)

lemma unit_after_division_aux:
  fixes r x y z :: real
  assumes "r \<noteq> 0" and "r * r = x * x + y * y + z * z"
  shows "(x / r) * (x / r) + (y / r) * (y / r) + (z / r) * (z / r) = 1"
proof -
  have "(x / r) * (x / r) + (y / r) * (y / r) + (z / r) * (z / r)
          = (x * x + y * y + z * z) / (r * r)"
    by (simp add: add_divide_distrib)
  also have "\<dots> = (r * r) / (r * r)" by (simp only: assms(2))
  also have "\<dots> = 1" using assms(1) by simp
  finally show ?thesis .
qed

lemma unit_after_division:
  fixes x y z :: real
  assumes "sqrt (x * x + y * y + z * z) \<noteq> 0"
  shows "sqrt ((x / sqrt (x * x + y * y + z * z)) * (x / sqrt (x * x + y * y + z * z))
             + (y / sqrt (x * x + y * y + z * z)) * (y / sqrt (x * x + y * y + z * z))
             + (z / sqrt (x * x + y * y + z * z)) * (z / sqrt (x * x + y * y + z * z))) = 1"
proof -
  have "sqrt (x * x + y * y + z * z) * sqrt (x * x + y * y + z * z) = x * x + y * y + z * z"
    using sum_squares3_nonneg [of x y z] by simp
  from unit_after_division_aux [OF assms this] show ?thesis by (simp only: real_sqrt_one)
qed

lemma normalised_unit_or_nan:
  "vdiv v (linalg_norm v) = (NaN, NaN, NaN) \<or> linalg_norm (vdiv v (linalg_norm v)) = Fin 1"
proof (cases v)
  case (fields a b c)
  show ?thesis
  proof (cases a; cases b; cases c)
    fix x y z assume f: "a = Fin x" "b = Fin y" "c = Fin z"
    have n: "\<not> x * x + y * y + z * z < 0" using sum_squares3_nonneg [of x y z] by linarith
    show ?thesis
    proof (cases "sqrt (x * x + y * y + z * z) = 0")
      case True
      then show ?thesis using n by (simp add: fields f sq_def)
    next
      case False
      have nn: "\<not> (x / sqrt (x * x + y * y + z * z)) * (x / sqrt (x * x + y * y + z * z))
             + (y / sqrt (x * x + y * y + z * z)) * (y / sqrt (x * x + y * y + z * z))
             + (z / sqrt (x * x + y * y + z * z)) * (z / sqrt (x * x + y * y + z * z)) < 0"
        using sum_squares3_nonneg [of "x / sqrt (x * x + y * y + z * z)"
            "y / sqrt (x * x + y * y + z * z)" "z / sqrt (x * x + y * y + z * z)"] by linarith
      have "linalg_norm (vdiv v (linalg_norm v)) = Fin 1"
        using False n nn unit_after_division [OF False]
        by (simp add: fields f sq_def del: real_sqrt_eq_zero_cancel_iff)
      then show ?thesis ..
    qed
  qed (simp_all add: fields sq_def)
qed

section \<open>The grid of a flat display\<close>

lemma flat_display_pixel_single:
  "pixel_height = 1 \<or> pixel_width = 1 \<Longrightarrow> i < pixel_height \<Longrightarrow> j < pixel_width \<Longrightarrow>
     flat_display_pixel sh sw pixel_height pixel_width d vo phi i j = (NaN, NaN, NaN)"
  by (auto simp: flat_display_pixel_def Let_def sq_def)

lemma flat_display_pixel_value:
  assumes "2 \<le> pixel_height" "2 \<le> pixel_width"
  shows "flat_display_pixel sh sw pixel_height pixel_width d vo phi i j =
     (let x = sw * (real j / real (pixel_width - 1) - 1 / 2);
          z = d * sin phi + (1 / 2 - real i / real (pixel_height - 1)) * sh * cos phi + vo;
          y = d * cos phi + (real i / real (pixel_height - 1) - 1 / 2) * sh * sin phi;
          r = sqrt (x * x + y * y + z * z)
      in if r = 0 then (NaN, NaN, NaN) else (Fin (x / r), Fin (y / r), Fin (z / r)))"
proof -
  have w: "(of_int (int pixel_width - 1) :: real) = real (pixel_width - 1)"
    "real (pixel_width - 1) \<noteq> 0"
    using assms(2) by (simp_all add: of_nat_diff)
  have h: "(of_int (int pixel_height - 1) :: real) = real (pixel_height - 1)"
    "real (pixel_height - 1) \<noteq> 0"
    using assms(1) by (simp_all add: of_nat_diff)
  define x where "x = sw * (real j / real (pixel_width - 1) - 1 / 2)"
  define z where "z = d * sin phi + (1 / 2 - real i / real (pixel_height - 1)) * sh * cos phi + vo"
  define y where "y = d * cos phi + (real i / real (pixel_height - 1) - 1 / 2) * sh * sin phi"
  have n: "\<not> x * x + y * y + z * z < 0" using sum_squares3_nonneg [of x y z] by linarith
  have "flat_display_pixel sh sw pixel_height pixel_width d vo phi i j
          = (let r = np_sqrt (sq (Fin x) + sq (Fin y) + sq (Fin z))
             in (Fin x / r, Fin y / r, Fin z / r))"
    unfolding flat_display_pixel_def Let_def w(1) h(1)
    using w(2) h(2) by (simp add: x_def y_def z_def)
  also have "\<dots> = (if sqrt (x * x + y * y + z * z) = 0 then (NaN, NaN, NaN)
        else (Fin (x / sqrt (x * x + y * y + z * z)), Fin (y / sqrt (x * x + y * y + z * z)),
              Fin (z / sqrt (x * x + y * y + z * z))))"
    using n by (simp add: sq_def Let_def del: real_sqrt_eq_zero_cancel_iff)
  finally show ?thesis unfolding Let_def x_def y_def z_def .
qed

text \<open>
  C3 (as amended). For every resolution with at least one row and one column
  \<open>flat_display_directions\<close> raises nothing and returns a grid of that shape. A grid with
  a single row or a single column is not special-cased: the interpolation divides zero by
  zero and every entry of the grid is \<open>NaN\<close>. With at least two rows and two columns the
  denominators \<open>pixel_height - 1\<close> and \<open>pixel_width - 1\<close> are not zero and every entry is
  the position of the pixel divided by its length (\<open>NaN\<close> only where that length is zero).
\<close>

theorem flat_display_directions_grid:
  assumes "1 \<le> pixel_height" and "1 \<le> pixel_width"
  shows "\<exists>g. flat_display_directions sh sw pixel_height pixel_width d vo phi = Inr g
     \<and> length g = pixel_height \<and> (\<forall>i<pixel_height. length (g ! i) = pixel_width)
     \<and> (pixel_height = 1 \<or> pixel_width = 1 \<longrightarrow>
           (\<forall>i<pixel_height. \<forall>j<pixel_width. g ! i ! j = (NaN, NaN, NaN)))
     \<and> (2 \<le> pixel_height \<and> 2 \<le> pixel_width \<longrightarrow>
           (\<forall>i<pixel_height. \<forall>j<pixel_width. g ! i ! j =
              (let x = sw * (real j / real (pixel_width - 1) - 1 / 2);
                   z = d * sin phi + (1 / 2 - real i / real (pixel_height - 1)) * sh * cos phi + vo;
                   y = d * cos phi + (real i / real (pixel_height - 1) - 1 / 2) * sh * sin phi;
                   r = sqrt (x * x + y * y + z * z)
               in if r = 0 then (NaN, NaN, NaN) else (Fin (x / r), Fin (y / r), Fin (z / r)))))"
proof -
  let ?g = "mk_grid pixel_height pixel_width
              (flat_display_pixel sh sw pixel_height pixel_width d vo phi)"
  have g: "flat_display_directions sh sw pixel_height pixel_width d vo phi = Inr ?g"
    using assms by (simp add: flat_display_directions_def)
  have l: "length ?g = pixel_height" by (rule length_mk_grid)
  have r: "\<forall>i<pixel_height. length (?g ! i) = pixel_width" by (simp add: length_mk_grid_row)
  have s: "pixel_height = 1 \<or> pixel_width = 1 \<longrightarrow>
           (\<forall>i<pixel_height. \<forall>j<pixel_width. ?g ! i ! j = (NaN, NaN, NaN))"
    by (simp add: mk_grid_nth flat_display_pixel_single)
  have v: "2 \<le> pixel_height \<and> 2 \<le> pixel_width \<longrightarrow>
           (\<forall>i<pixel_height. \<forall>j<pixel_width. ?g ! i ! j =
              (let x = sw * (real j / real (pixel_width - 1) - 1 / 2);
                   z = d * sin phi + (1 / 2 - real i / real (pixel_height - 1)) * sh * cos phi + vo;
                   y = d * cos phi + (real i / real (pixel_height - 1) - 1 / 2) * sh * sin phi;
                   r = sqrt (x * x + y * y + z * z)
               in if r = 0 then (NaN, NaN, NaN) else (Fin (x / r), Fin (y / r), Fin (z / r))))"
    using flat_display_pixel_value [of pixel_height pixel_width sh sw d vo phi]
    by (simp add: mk_grid_nth)
  show ?thesis by (rule exI [of _ ?g]) (intro conjI g l r s v)
qed

theorem flat_display_directions_grid_witness:
  "(1 :: nat) \<le> 2
   \<and> (\<exists>g. flat_display_directions 4 4 2 2 1 0 0 = Inr g \<and> length g = 2
          \<and> length (g ! 0) = 2
          \<and> g ! 0 ! 0 = (Fin (- 2 / 3), Fin (1 / 3), Fin (2 / 3)))"
proof -
  have h: "(1 :: nat) \<le> 2" by simp
  from flat_display_directions_grid [OF h h, of 4 4 1 0 0] obtain g where
    g: "flat_display_directions 4 4 2 2 1 0 0 = Inr g" and l: "length g = 2"
    and r: "\<forall>i<2. length (g ! i) = 2"
    and v: "(2 :: nat) \<le> 2 \<and> (2 :: nat) \<le> 2 \<longrightarrow>
           (\<forall>i<2. \<forall>j<2. g ! i ! j =
              (let x = 4 * (real j / real (2 - 1 :: nat) - 1 / 2);
                   z = 1 * sin 0 + (1 / 2 - real i / real (2 - 1 :: nat)) * 4 * cos 0 + 0;
                   y = 1 * cos 0 + (real i / real (2 - 1 :: nat) - 1 / 2) * 4 * sin 0;
                   r = sqrt (x * x + y * y + z * z)
               in if r = 0 then (NaN, NaN, NaN) else (Fin (x / r), Fin (y / r), Fin (z / r))))"
    by blast
  from r have r0: "length (g ! 0) = 2" by simp
  from v have "g ! 0 ! 0 = (Fin (- 2 / 3), Fin (1 / 3), Fin (2 / 3))"
    by (simp add: Let_def sqrt_9)
  with h g l r0 show ?thesis by blast
qed

text \<open>The claim as written fails for a single pixel and for a single row of three
  pixels: no entry is the centre direction \<open>(0, 1, 0)\<close>, every entry is \<open>NaN\<close>.\<close>

theorem flat_display_single_row_counterexample:
  "flat_display_directions 1 1 1 1 1 0 0 = Inr [[(NaN, NaN, NaN)]]
   \<and> flat_display_directions 1 1 1 3 1 0 0
        = Inr [[(NaN, NaN, NaN), (NaN, NaN, NaN), (NaN, NaN, NaN)]]"
  by (simp add: flat_display_directions_def mk_grid_def flat_display_pixel_def Let_def sq_def
        upt_rec)

section \<open>Norms of the direction fields\<close>

lemma flat_display_pixel_unit_or_nan:
  "flat_display_pixel sh sw ph pw d vo phi i j = (NaN, NaN, NaN)
   \<or> linalg_norm (flat_display_pixel sh sw ph pw d vo phi i j) = Fin 1"
proof -
  have "\<exists>v. flat_display_pixel sh sw ph pw d vo phi i j = vdiv v (linalg_norm v)"
    unfolding flat_display_pixel_def Let_def
    by (rule exI [of _ "(_, _, _)"]) simp
  then show ?thesis using normalised_unit_or_nan by metis
qed

lemma flip_x_unit_or_nan:
  assumes "v = (NaN, NaN, NaN) \<or> linalg_norm v = Fin 1"
  shows "flip_x v = (NaN, NaN, NaN) \<or> linalg_norm (flip_x v) = Fin 1"
proof (cases v)
  case (fields a b c)
  show ?thesis
    using assms unfolding fields
    by (cases a; cases b; cases c) (auto simp: flip_x_def sq_def split: if_splits)
qed

lemma projector_pixel_direction_unit_or_nan:
  "projector_pixel_direction second_image fp h w i j = (NaN, NaN, NaN)
   \<or> linalg_norm (projector_pixel_direction second_image fp h w i j) = Fin 1"
  unfolding projector_pixel_direction_def
  by (cases "projector_image second_image fp")
     (simp add: flip_x_unit_or_nan flat_display_pixel_unit_or_nan)

lemma fst_incident_light_pixel: "fst (incident_light_pixel p radius pd) \<in> {0, 1}"
  by (simp add: incident_light_pixel_def Let_def)

lemma animal_view_direction_unit_or_nan:
  "animal_view_direction 1 reflected m position = (NaN, NaN, NaN)
   \<or> linalg_norm (animal_view_direction 1 reflected m position) = Fin 1"
  unfolding animal_view_direction_def Let_def
  using normalised_unit_or_nan [of "vsub (vadd reflected m) (fpoint position)"] by simp

lemma snd_dome_display_pixel:
  "snd (dome_display_pixel p radius center d_radius position pd)
     = animal_view_direction (fst (dome_display_pixel p radius center d_radius position pd))
         (reflected_light_vector (fst (incident_light_pixel p radius pd))
            (mirror_radius_vector p (snd (incident_light_pixel p radius pd))) center d_radius
            (reflectedLightDirection (fst (incident_light_pixel p radius pd))
               (snd (incident_light_pixel p radius pd))
               (mirrorUnitNormal (mirror_radius_vector p (snd (incident_light_pixel p radius pd)))
                  radius)))
         (mirror_radius_vector p (snd (incident_light_pixel p radius pd))) position"
  by (simp add: dome_display_pixel_def Let_def case_prod_beta)

lemma dome_display_pixel_masked:
  assumes "fst (dome_display_pixel p radius center d_radius position pd) = 1"
  shows "snd (dome_display_pixel p radius center d_radius position pd) = (NaN, NaN, NaN)
       \<or> linalg_norm (snd (dome_display_pixel p radius center d_radius position pd)) = Fin 1"
  unfolding snd_dome_display_pixel assms by (rule animal_view_direction_unit_or_nan)

lemma dome_display_pixel_unmasked:
  assumes "fst (dome_display_pixel p radius center d_radius position pd) \<noteq> 1"
  shows "snd (dome_display_pixel p radius center d_radius position pd) = zeros3"
  unfolding snd_dome_display_pixel using assms by (simp add: animal_view_direction_def)

lemma init_grids:
  assumes "init scrs h w first_image second_image m_radius center d_radius position = Inr self"
    and "calc_projector_focal_point first_image second_image = Inr fp"
  shows "projector_mask self
         = mk_grid h w (\<lambda>i j. fst (dome_display_entry second_image fp h w m_radius center d_radius position i j))"
    and "animal_view_directions self
         = mk_grid h w (\<lambda>i j. snd (dome_display_entry second_image fp h w m_radius center d_radius position i j))"
    and "projector_pixel_height self = h" and "projector_pixel_width self = w"
  using init_Inr [OF assms(1)] assms(2) by auto

lemma init_camera:
  assumes "init scrs h w first_image second_image m_radius center d_radius position = Inr self"
  shows "\<exists>(s :: screen) rest. map to_radians scrs = s # rest
       \<and> camera_view_directions self
         = mk_grid (image_pixel_height s) (image_pixel_width s)
             (flat_display_pixel (screen_height s) (screen_width s) (image_pixel_height s)
                (image_pixel_width s) (distance_to_screen s) (pitch s) 0)"
  using init_Inr [OF assms] by (elim exE conjE) (rule exI, rule exI, rule conjI; assumption)

section \<open>Reflected rays that miss the dome\<close>

lemma reflected_light_vector_miss:
  assumes "flt (dome_d_squared m center radius rld) (Fin 0)"
  shows "reflected_light_vector 1 m center radius rld = (NaN, NaN, NaN)"
proof -
  from assms obtain D where "dome_d_squared m center radius rld = Fin D" "D < 0"
    using flt_FinD by blast
  then show ?thesis
    by (simp add: reflected_light_vector_def Let_def py_max2_def)
qed

lemma animal_view_direction_nan:
  "animal_view_direction 1 (NaN, NaN, NaN) m position = (NaN, NaN, NaN)"
  by (cases m; cases position) (simp add: animal_view_direction_def Let_def sq_def)

lemma example_centre_incident:
  "incident_light_pixel (fpoint (0, 3, 0)) 1 (Fin 0, Fin (- 1), Fin 0)
     = (1, (Fin 0, Fin (- 2), Fin 0))"
proof -
  have d: "mirror_d_squared (Fin 0, Fin 3, Fin 0) 1 (Fin 0, Fin (- 1), Fin 0) = Fin 4"
    by (simp add: mirror_d_squared_def mirror_a_def mirror_b_def mirror_c_def sq_def)
  have r: "mirror_r (Fin 0, Fin 3, Fin 0) 1 (Fin 0, Fin (- 1), Fin 0) = Fin 2"
    using d by (simp add: mirror_r_def mirror_a_def mirror_b_def sq_def Let_def py_min2_def)
  show ?thesis using d r by (simp add: incident_light_pixel_def)
qed

lemma example_centre_reflected:
  "reflectedLightDirection 1 (Fin 0, Fin (- 2), Fin 0) (mirrorUnitNormal (Fin 0, Fin 1, Fin 0) 1)
     = (Fin 0, Fin 1, Fin 0)"
  by (simp add: reflectedLightDirection_def mirrorUnitNormal_def Let_def sq_def)

lemma example_centre_mirror_point:
  "mirror_radius_vector (fpoint (0, 3, 0)) (Fin 0, Fin (- 2), Fin 0) = (Fin 0, Fin 1, Fin 0)"
  by (simp add: mirror_radius_vector_def)

text \<open>
  C2 (as amended). The mask of a pixel is decided by the mirror quadratic alone. A pixel
  that hits the mirror and whose dome quadratic has a negative discriminant keeps
  mask 1: the square root of the discriminant is \<open>nan\<close>, and the pixel's viewing
  direction is \<open>NaN\<close> in all three components.
\<close>

theorem dome_miss_keeps_mask:
  assumes hit: "incident_light_pixel p m_radius pd = (1, incident)"
    and miss: "flt (dome_d_squared (mirror_radius_vector p incident) center d_radius
                      (reflectedLightDirection 1 incident
                         (mirrorUnitNormal (mirror_radius_vector p incident) m_radius)))
                   (Fin 0)"
  shows "dome_display_pixel p m_radius center d_radius position pd = (1, (NaN, NaN, NaN))"
  unfolding dome_display_pixel_def Let_def hit
  by (simp only: prod.case reflected_light_vector_miss [OF miss] animal_view_direction_nan)

theorem dome_miss_keeps_mask_witness:
  "incident_light_pixel (fpoint (0, 3, 0)) 1 (Fin 0, Fin (- 1), Fin 0)
     = (1, (Fin 0, Fin (- 2), Fin 0))
   \<and> flt (dome_d_squared (mirror_radius_vector (fpoint (0, 3, 0)) (Fin 0, Fin (- 2), Fin 0))
             (5, 0, 0) 1
             (reflectedLightDirection 1 (Fin 0, Fin (- 2), Fin 0)
                (mirrorUnitNormal
                   (mirror_radius_vector (fpoint (0, 3, 0)) (Fin 0, Fin (- 2), Fin 0)) 1)))
          (Fin 0)
   \<and> dome_display_pixel (fpoint (0, 3, 0)) 1 (5, 0, 0) 1 (0, 0, 0) (Fin 0, Fin (- 1), Fin 0)
       = (1, (NaN, NaN, NaN))"
proof -
  have miss: "flt (dome_d_squared (mirror_radius_vector (fpoint (0, 3, 0)) (Fin 0, Fin (- 2), Fin 0))
             (5, 0, 0) 1
             (reflectedLightDirection 1 (Fin 0, Fin (- 2), Fin 0)
                (mirrorUnitNormal
                   (mirror_radius_vector (fpoint (0, 3, 0)) (Fin 0, Fin (- 2), Fin 0)) 1)))
          (Fin 0)"
    unfolding example_centre_mirror_point example_centre_reflected
    by (simp add: dome_d_squared_def dome_a_def dome_b_def dome_c_def sq_def Let_def)
  from dome_miss_keeps_mask [OF example_centre_incident miss] example_centre_incident miss
  show ?thesis by (intro conjI)
qed

text \<open>The claim as written fails for the centre pixel of the example projector when the
  dome has radius 1 and its centre at \<open>(10, 0, 0)\<close>: the discriminant of the dome
  quadratic is \<open>-396\<close>, and the pixel keeps mask 1 with a non-finite direction.\<close>

theorem dome_miss_counterexample:
  "calc_projector_focal_point example_first_image example_second_image = Inr (0, 3, 0)
   \<and> projector_pixel_direction example_second_image (0, 3, 0) 3 3 1 1
        = (Fin 0, Fin (- 1), Fin 0)
   \<and> incident_light_pixel (fpoint (0, 3, 0)) 1 (Fin 0, Fin (- 1), Fin 0)
        = (1, (Fin 0, Fin (- 2), Fin 0))
   \<and> dome_d_squared (Fin 0, Fin 1, Fin 0) (10, 0, 0) 1 (Fin 0, Fin 1, Fin 0) = Fin (- 396)
   \<and> flt (dome_d_squared (Fin 0, Fin 1, Fin 0) (10, 0, 0) 1 (Fin 0, Fin 1, Fin 0)) (Fin 0)
   \<and> dome_display_pixel (fpoint (0, 3, 0)) 1 (10, 0, 0) 1 (0, 0, 0) (Fin 0, Fin (- 1), Fin 0)
        = (1, (NaN, NaN, NaN))"
proof -
  have dd: "dome_d_squared (Fin 0, Fin 1, Fin 0) (10, 0, 0) 1 (Fin 0, Fin 1, Fin 0) = Fin (- 396)"
    by (simp add: dome_d_squared_def dome_a_def dome_b_def dome_c_def sq_def Let_def)
  then have lt: "flt (dome_d_squared (Fin 0, Fin 1, Fin 0) (10, 0, 0) 1 (Fin 0, Fin 1, Fin 0)) (Fin 0)"
    by simp
  have rv: "reflected_light_vector 1 (Fin 0, Fin 1, Fin 0) (10, 0, 0) 1 (Fin 0, Fin 1, Fin 0)
       = (NaN, NaN, NaN)"
    using dd by (simp add: reflected_light_vector_def Let_def py_max2_def)
  have av: "animal_view_direction 1 (NaN, NaN, NaN) (Fin 0, Fin 1, Fin 0) (0, 0, 0) = (NaN, NaN, NaN)"
    by (simp add: animal_view_direction_def Let_def sq_def)
  have px: "dome_display_pixel (fpoint (0, 3, 0)) 1 (10, 0, 0) 1 (0, 0, 0) (Fin 0, Fin (- 1), Fin 0)
        = (1, (NaN, NaN, NaN))"
    using example_centre_incident example_centre_reflected example_centre_mirror_point rv av
    by (simp add: dome_display_pixel_def Let_def)
  show ?thesis
    by (intro conjI example_focal_point example_centre_direction example_centre_incident dd lt px)
qed

section \<open>The norm of a masked viewing direction\<close>

text \<open>
  C6 (as amended). In an object returned by the constructor, the viewing direction of a
  projector pixel with mask 1 either has norm exactly 1 (in exact arithmetic) or is
  \<open>NaN\<close> in all three components; the second case occurs, for instance, when the
  reflected ray misses the dome.
\<close>

theorem masked_direction_unit_or_nan:
  assumes init: "init scrs h w first_image second_image m_radius center d_radius position = Inr self"
    and i: "i < h" and j: "j < w"
    and m: "projector_mask self ! i ! j = 1"
  shows "animal_view_directions self ! i ! j = (NaN, NaN, NaN)
       \<or> linalg_norm (animal_view_directions self ! i ! j) = Fin 1"
proof -
  from init_Inr [OF init] obtain fp where
    pm: "projector_mask self
         = mk_grid h w (\<lambda>i j. fst (dome_display_entry second_image fp h w m_radius center d_radius position i j))"
    and avd: "animal_view_directions self
         = mk_grid h w (\<lambda>i j. snd (dome_display_entry second_image fp h w m_radius center d_radius position i j))"
    by blast
  from m i j have f: "fst (dome_display_pixel (fpoint fp) m_radius center d_radius position
      (projector_pixel_direction second_image fp h w i j)) = 1"
    by (simp add: pm mk_grid_nth dome_display_entry_def)
  from dome_display_pixel_masked [OF f] show ?thesis
    using i j by (simp add: avd mk_grid_nth dome_display_entry_def)
qed

theorem masked_direction_unit_or_nan_witness:
  "\<exists>self. init example_screens 3 3 example_first_image example_second_image 1 (0, 0, 0) 2 (0, 0, 0)
            = Inr self
     \<and> (1 :: nat) < 3
     \<and> projector_mask self ! 1 ! 1 = 1
     \<and> animal_view_directions self ! 1 ! 1 = (Fin 0, Fin 1, Fin 0)
     \<and> (animal_view_directions self ! 1 ! 1 = (NaN, NaN, NaN)
          \<or> linalg_norm (animal_view_directions self ! 1 ! 1) = Fin 1)"
proof -
  obtain self where init: "init example_screens 3 3 example_first_image example_second_image
      1 (0, 0, 0) 2 (0, 0, 0) = Inr self"
    using example_init by blast
  have pos: "(1 :: nat) < 3" by simp
  note m = example_table_centre(1) [OF init]
  note a = example_table_centre(2) [OF init]
  note res = masked_direction_unit_or_nan [OF init pos pos m]
  show ?thesis by (rule exI [of _ self]) (intro conjI init pos m a res)
qed

text \<open>The claim as written fails for the centre pixel of the example projector when the
  dome has radius 2 and its centre at \<open>(0, 0, 10)\<close>: the pixel has mask 1 and its
  direction is \<open>NaN\<close>, whose norm is not 1.\<close>

theorem masked_direction_nan_counterexample:
  "calc_projector_focal_point example_first_image example_second_image = Inr (0, 3, 0)
   \<and> dome_display_entry example_second_image (0, 3, 0) 3 3 1 (0, 0, 10) 2 (0, 0, 0) 1 1
        = (1, (NaN, NaN, NaN))
   \<and> linalg_norm (NaN, NaN, NaN) = NaN
   \<and> \<not> feq (linalg_norm (NaN, NaN, NaN)) (Fin 1)"
proof -
  have dd: "dome_d_squared (Fin 0, Fin 1, Fin 0) (0, 0, 10) 2 (Fin 0, Fin 1, Fin 0) = Fin (- 384)"
    by (simp add: dome_d_squared_def dome_a_def dome_b_def dome_c_def sq_def Let_def)
  have rv: "reflected_light_vector 1 (Fin 0, Fin 1, Fin 0) (0, 0, 10) 2 (Fin 0, Fin 1, Fin 0)
       = (NaN, NaN, NaN)"
    using dd by (simp add: reflected_light_vector_def Let_def py_max2_def)
  have av: "animal_view_direction 1 (NaN, NaN, NaN) (Fin 0, Fin 1, Fin 0) (0, 0, 0) = (NaN, NaN, NaN)"
    by (simp add: animal_view_direction_def Let_def sq_def)
  have px: "dome_display_pixel (fpoint (0, 3, 0)) 1 (0, 0, 10) 2 (0, 0, 0) (Fin 0, Fin (- 1), Fin 0)
        = (1, (NaN, NaN, NaN))"
    using example_centre_incident example_centre_reflected example_centre_mirror_point rv av
    by (simp add: dome_display_pixel_def Let_def)
  have e: "dome_display_entry example_second_image (0, 3, 0) 3 3 1 (0, 0, 10) 2 (0, 0, 0) 1 1
        = (1, (NaN, NaN, NaN))"
    unfolding dome_display_entry_def example_centre_direction by (rule px)
  have n: "linalg_norm (NaN, NaN, NaN) = NaN" by (simp add: sq_def)
  have f: "\<not> feq (linalg_norm (NaN, NaN, NaN)) (Fin 1)" by (simp add: sq_def)
  show ?thesis by (intro conjI example_focal_point e n f)
qed

section \<open>The norm of every entry of a direction field\<close>

text \<open>
  C7 (as amended). In an object returned by the constructor, every entry of the camera
  view field and of the projector's image plane field has norm 1 or is \<open>NaN\<close> in all
  components (a single row or column, or a pixel at the viewpoint); every entry of the
  animal view field at a pixel with mask 1 has norm 1 or is \<open>NaN\<close>; and every entry of
  the animal view field at a pixel whose mask is not 1 is the zero vector.
\<close>

theorem direction_fields_unit_nan_or_zero:
  assumes init: "init scrs h w first_image second_image m_radius center d_radius position = Inr self"
    and fp: "calc_projector_focal_point first_image second_image = Inr fp"
  shows "(\<forall>row<length (camera_view_directions self).
            \<forall>col<length (camera_view_directions self ! row).
              camera_view_directions self ! row ! col = (NaN, NaN, NaN)
              \<or> linalg_norm (camera_view_directions self ! row ! col) = Fin 1)
       \<and> (\<forall>i<h. \<forall>j<w.
              projector_pixel_direction second_image fp h w i j = (NaN, NaN, NaN)
              \<or> linalg_norm (projector_pixel_direction second_image fp h w i j) = Fin 1)
       \<and> (\<forall>i<h. \<forall>j<w.
              if projector_mask self ! i ! j = 1
              then animal_view_directions self ! i ! j = (NaN, NaN, NaN)
                   \<or> linalg_norm (animal_view_directions self ! i ! j) = Fin 1
              else animal_view_directions self ! i ! j = zeros3)"
proof -
  note pm = init_grids(1) [OF init fp] and avd = init_grids(2) [OF init fp]
  from init_camera [OF init] obtain s :: screen where
    cvd: "camera_view_directions self
         = mk_grid (image_pixel_height s) (image_pixel_width s)
             (flat_display_pixel (screen_height s) (screen_width s) (image_pixel_height s)
                (image_pixel_width s) (distance_to_screen s) (pitch s) 0)" by blast
  have a: "\<forall>row<length (camera_view_directions self).
            \<forall>col<length (camera_view_directions self ! row).
              camera_view_directions self ! row ! col = (NaN, NaN, NaN)
              \<or> linalg_norm (camera_view_directions self ! row ! col) = Fin 1"
    unfolding cvd
    by (simp add: length_mk_grid length_mk_grid_row mk_grid_nth flat_display_pixel_unit_or_nan)
  have b: "\<forall>i<h. \<forall>j<w.
              projector_pixel_direction second_image fp h w i j = (NaN, NaN, NaN)
              \<or> linalg_norm (projector_pixel_direction second_image fp h w i j) = Fin 1"
    by (simp add: projector_pixel_direction_unit_or_nan)
  have c: "if projector_mask self ! i ! j = 1
              then animal_view_directions self ! i ! j = (NaN, NaN, NaN)
                   \<or> linalg_norm (animal_view_directions self ! i ! j) = Fin 1
              else animal_view_directions self ! i ! j = zeros3"
    if ij: "i < h" "j < w" for i j
  proof (cases "projector_mask self ! i ! j = 1")
    case True
    with ij have f: "fst (dome_display_pixel (fpoint fp) m_radius center d_radius position
        (projector_pixel_direction second_image fp h w i j)) = 1"
      by (simp add: pm mk_grid_nth dome_display_entry_def)
    from dome_display_pixel_masked [OF f] True show ?thesis
      using ij by (simp add: avd mk_grid_nth dome_display_entry_def)
  next
    case False
    with ij have f: "fst (dome_display_pixel (fpoint fp) m_radius center d_radius position
        (projector_pixel_direction second_image fp h w i j)) \<noteq> 1"
      by (simp add: pm mk_grid_nth dome_display_entry_def)
    from dome_display_pixel_unmasked [OF f] False show ?thesis
      using ij by (simp add: avd mk_grid_nth dome_display_entry_def)
  qed
  show ?thesis using a b c by blast
qed

theorem direction_fields_unit_nan_or_zero_witness:
  "\<exists>self. init example_screens 3 3 example_first_image example_second_image 1 (0, 0, 0) 2 (0, 0, 0)
            = Inr self
     \<and> calc_projector_focal_point example_first_image example_second_image = Inr (0, 3, 0)
     \<and> (\<forall>row<length (camera_view_directions self).
            \<forall>col<length (camera_view_directions self ! row).
              camera_view_directions self ! row ! col = (NaN, NaN, NaN)
              \<or> linalg_norm (camera_view_directions self ! row ! col) = Fin 1)
     \<and> (\<forall>i<3. \<forall>j<3.
              projector_pixel_direction example_second_image (0, 3, 0) 3 3 i j = (NaN, NaN, NaN)
              \<or> linalg_norm (projector_pixel_direction example_second_image (0, 3, 0) 3 3 i j)
                  = Fin 1)
     \<and> (\<forall>i<3. \<forall>j<3.
              if projector_mask self ! i ! j = 1
              then animal_view_directions self ! i ! j = (NaN, NaN, NaN)
                   \<or> linalg_norm (animal_view_directions self ! i ! j) = Fin 1
              else animal_view_directions self ! i ! j = zeros3)"
proof -
  obtain self where init: "init example_screens 3 3 example_first_image example_second_image
      1 (0, 0, 0) 2 (0, 0, 0) = Inr self"
    using example_init by blast
  note res = direction_fields_unit_nan_or_zero [OF init example_focal_point]
  show ?thesis
    by (rule exI [of _ self])
       (intro conjI init example_focal_point res [THEN conjunct1]
          res [THEN conjunct2, THEN conjunct1] res [THEN conjunct2, THEN conjunct2])
qed

text \<open>The claim as written fails at the top left pixel of the example projector, which
  misses the mirror: its entry of the animal view field is the zero vector, of norm 0.\<close>

theorem unmasked_direction_zero_counterexample:
  "calc_projector_focal_point example_first_image example_second_image = Inr (0, 3, 0)
   \<and> dome_display_entry example_second_image (0, 3, 0) 3 3 1 (0, 0, 0) 2 (0, 0, 0) 0 0
        = (0, zeros3)
   \<and> linalg_norm zeros3 = Fin 0
   \<and> \<not> feq (linalg_norm zeros3) (Fin 1)"
proof -
  have m: "\<not> fge (mirror_d_squared (fpoint (0, 3, 0)) 1
               (Fin (1 / 3), Fin (- 2 / 3), Fin (2 / 3))) (Fin 0)"
    using example_corner_misses by simp
  have e: "dome_display_entry example_second_image (0, 3, 0) 3 3 1 (0, 0, 0) 2 (0, 0, 0) 0 0
        = (0, zeros3)"
    unfolding dome_display_entry_def example_corner_direction
    by (rule dome_display_pixel_miss [OF m])
  have n: "linalg_norm zeros3 = Fin 0" by (simp add: zeros3_def sq_def)
  have f: "\<not> feq (linalg_norm zeros3) (Fin 1)" by (simp add: zeros3_def sq_def)
  show ?thesis by (intro conjI example_focal_point e n f)
qed

section \<open>The hill climb\<close>

text \<open>When no dot product in the list is \<open>NaN\<close>, Python's \<open>max\<close> returns a greatest
  element of the list.\<close>

lemma fgt_total_finite: "x \<noteq> NaN \<Longrightarrow> y \<noteq> NaN \<Longrightarrow> \<not> fgt x y \<Longrightarrow> \<not> fgt y z \<Longrightarrow> \<not> fgt x z"
  by (cases x; cases y; cases z) auto

lemma foldl_py_max2_ge_start:
  "x \<noteq> NaN \<Longrightarrow> \<forall>y\<in>set xs. y \<noteq> NaN \<Longrightarrow> \<not> fgt x (foldl py_max2 x xs) \<and> foldl py_max2 x xs \<noteq> NaN"
proof (induction xs arbitrary: x)
  case Nil
  then show ?case by (simp add: fgt_irrefl)
next
  case (Cons a xs)
  have s: "py_max2 x a \<noteq> NaN" using Cons.prems by (simp add: py_max2_def)
  from Cons.IH [OF s] Cons.prems
  have ih: "\<not> fgt (py_max2 x a) (foldl py_max2 (py_max2 x a) xs)"
    "foldl py_max2 (py_max2 x a) xs \<noteq> NaN" by auto
  have "\<not> fgt x (py_max2 x a)" by (cases x; cases a) (auto simp: py_max2_def)
  with ih s Cons.prems show ?case
    using fgt_total_finite [of x "py_max2 x a" "foldl py_max2 (py_max2 x a) xs"] by simp
qed










lemma np_get2_in_range:
  assumes "0 \<le> r" "r < int (length a)" "0 \<le> c" "c < int (length (a ! nat r))"
  shows "np_get2 a r c = Inr (a ! nat r ! nat c)"
  using assms by (simp add: np_get2_def np_index_def)




section \<open>The other pixels of the example\<close>

lemma example_other_pixels_miss:
  assumes "i < 3" "j < 3" "(i, j) \<noteq> (1, 1)"
  shows "\<not> fge (mirror_d_squared (fpoint (0, 3, 0)) 1
               (projector_pixel_direction example_second_image (0, 3, 0) 3 3 i j)) (Fin 0)"
proof -
  have sq8: "sqrt 8 * sqrt 8 = 8" "sqrt 5 * sqrt 5 = 5" by simp_all
  from assms(1) have i: "i = 0 \<or> i = 1 \<or> i = 2" by linarith
  from assms(2) have j: "j = 0 \<or> j = 1 \<or> j = 2" by linarith
  show ?thesis
    using i j assms(3)
    by (elim disjE)
       (simp_all add: projector_pixel_direction_def example_projector_image flat_display_pixel_def
          flip_x_def Let_def sq_def sqrt_9 mirror_d_squared_def mirror_a_def mirror_b_def
          mirror_c_def add_divide_distrib [symmetric])
qed

lemma example_view_directions:
  assumes init: "init example_screens 3 3 example_first_image example_second_image 1 (0, 0, 0) 2
      (0, 0, 0) = Inr self"
    and ij: "i < 3" "j < 3"
  shows "projector_mask self ! i ! j = (if (i, j) = (1, 1) then 1 else 0)"
    and "animal_view_directions self ! i ! j
           = (if (i, j) = (1, 1) then (Fin 0, Fin 1, Fin 0) else zeros3)"
proof -
  note pm = init_grids(1) [OF init example_focal_point]
    and avd = init_grids(2) [OF init example_focal_point]
  have other: "dome_display_entry example_second_image (0, 3, 0) 3 3 1 (0, 0, 0) 2 (0, 0, 0) i j
      = (0, zeros3)" if "(i, j) \<noteq> (1, 1)"
    unfolding dome_display_entry_def
    by (rule dome_display_pixel_miss [OF example_other_pixels_miss [OF ij that]])
  show "projector_mask self ! i ! j = (if (i, j) = (1, 1) then 1 else 0)"
    using ij other example_table_centre(1) [OF init] by (auto simp: pm mk_grid_nth)
  show "animal_view_directions self ! i ! j
           = (if (i, j) = (1, 1) then (Fin 0, Fin 1, Fin 0) else zeros3)"
    using ij other example_table_centre(2) [OF init] by (auto simp: avd mk_grid_nth)
qed


lemma example_camera_read:
  assumes init: "init example_screens 3 3 example_first_image example_second_image m_radius center
      d_radius position = Inr self"
  shows "np_get2 (camera_view_directions self) 0 0 = Inr (flat_display_pixel 1 1 2 2 1 0 0 0 0)"
proof -
  from init_camera [OF init] obtain s :: screen and rest where
    s: "map to_radians example_screens = s # rest"
    and cvd: "camera_view_directions self
         = mk_grid (image_pixel_height s) (image_pixel_width s)
             (flat_display_pixel (screen_height s) (screen_width s) (image_pixel_height s)
                (image_pixel_width s) (distance_to_screen s) (pitch s) 0)"
    by (elim exE conjE) (rule that; assumption)
  from s have "s = to_radians (hd example_screens)" by (simp add: example_screens_def)
  then have v: "image_pixel_height s = 2" "image_pixel_width s = 2" "screen_height s = 1"
    "screen_width s = 1" "distance_to_screen s = 1" "pitch s = 0"
    by (simp_all add: to_radians_def example_screens_def)
  have l: "length (mk_grid 2 2 (flat_display_pixel 1 1 2 2 1 0 0) ! 0) = 2"
    by (rule length_mk_grid_row) simp
  have e: "mk_grid 2 2 (flat_display_pixel 1 1 2 2 1 0 0) ! 0 ! 0
             = flat_display_pixel 1 1 2 2 1 0 0 0 0"
    by (rule mk_grid_nth) simp_all
  from l have ne: "mk_grid 2 2 (flat_display_pixel 1 1 2 2 1 0 0) ! 0 \<noteq> []" by auto
  show ?thesis
    unfolding cvd v
    by (simp add: np_get2_def np_index_def length_mk_grid l e ne)
qed


section \<open>The search from a valid pixel\<close>




section \<open>The restart from an invalid pixel\<close>

text \<open>
  C9 (the code does not do what the claim says). Whenever the camera pixel exists and
  the saved projector pixel has mask 0, \<open>_find_closest_projector_pixel\<close> raises
  \<open>TypeError\<close>: the restart loop calls \<open>randint\<close> of Python's \<open>random\<close> module with
  one argument. It neither picks a random pixel nor proceeds with the hill climb. The
  object that the constructor returns for the example configuration is such a case: its
  saved pixel is \<open>(2, 1)\<close>, which misses the mirror, while the centre pixel has mask 1.
\<close>

theorem restart_raises_TypeError:
  assumes "np_get2 (camera_view_directions self) row col = Inr camera_direction"
    and "np_get2 (projector_mask self) (projector_pixel_row self) (projector_pixel_col self)
           = Inr 0"
  shows "find_closest_projector_pixel self row col = Inl TypeError"
  using assms by (simp add: find_closest_projector_pixel_def Let_def)

theorem restart_raises_TypeError_witness:
  "\<exists>self.
       init example_screens 3 3 example_first_image example_second_image 1 (0, 0, 0) 2 (0, 0, 0)
         = Inr self
     \<and> projector_mask self ! 1 ! 1 = 1
     \<and> projector_pixel_row self = 2 \<and> projector_pixel_col self = 1
     \<and> np_get2 (camera_view_directions self) 0 0 = Inr (flat_display_pixel 1 1 2 2 1 0 0 0 0)
     \<and> np_get2 (projector_mask self) (projector_pixel_row self) (projector_pixel_col self) = Inr 0
     \<and> find_closest_projector_pixel self 0 0 = Inl TypeError"
proof -
  obtain self where init: "init example_screens 3 3 example_first_image example_second_image
      1 (0, 0, 0) 2 (0, 0, 0) = Inr self"
    using example_init by blast
  note pm = init_grids(1) [OF init example_focal_point]
  have saved: "projector_pixel_row self = 2" "projector_pixel_col self = 1"
    using init_Inr [OF init] by auto
  note centre = example_table_centre(1) [OF init]
  note cam = example_camera_read [OF init]
  have m21: "projector_mask self ! 2 ! 1 = 0"
    using example_view_directions(1) [OF init, of 2 1] by simp
  have l: "length (projector_mask self) = 3" "length (projector_mask self ! 2) = 3"
    by (simp_all add: pm length_mk_grid length_mk_grid_row)
  have get: "np_get2 (projector_mask self) (projector_pixel_row self) (projector_pixel_col self)
      = Inr 0"
    unfolding saved using np_get2_in_range [of 2 "projector_mask self" 1] l m21 by simp
  note res = restart_raises_TypeError [OF cam get]
  show ?thesis by (rule exI [of _ self]) (intro conjI init centre saved cam get res)
qed

end
